theory Spec2Isabelle
  imports Main "HOL-Library.Sublist"
begin

section \<open>The realtime voice session hook (useRealtimeVoice.ts)\<close>

text \<open>
  A shallow embedding of \<^verbatim>\<open>src/frontend/src/hooks/useRealtimeVoice.ts\<close> and of the types
  it uses from \<^verbatim>\<open>@/types/realtime\<close>. The hook keeps a React state
  (\<^verbatim>\<open>VoiceInterfaceState\<close>), a mutable ref holding the \<^verbatim>\<open>WebRTCConnectionState\<close>, and
  talks to browser objects (peer connection, data channel, media stream, audio element) and to
  two HTTP endpoints. Browser objects live in an explicit store and are referred to by
  handles, since the code holds the same object both in a local variable and in the ref.
  Console output is not modelled. Functional \<^verbatim>\<open>setState\<close> updates are applied in
  program order. Of the effects of lines 479-503 the unmount cleanup is \<open>disconnect\<close>; the
  auto-connect effect is not modelled.
\<close>

subsection \<open>Types of \<^verbatim>\<open>@/types/realtime\<close>\<close>

datatype part_kind = Input_text | Input_audio | Text | Audio

record ContentPart =
  part_type :: part_kind
  part_text :: "string option"
  audio :: "string option"
  transcript :: "string option"

datatype item_kind = Message | Function_call | Function_call_output

datatype item_status = Completed | Incomplete | Failed

datatype item_role = User | Assistant | System

record ConversationItem =
  item_id :: "string option"
  item_type :: item_kind
  status :: "item_status option"
  role :: "item_role option"
  content :: "ContentPart list option"
  name :: "string option"
  call_id :: "string option"
  arguments :: "string option"
  item_output :: "string option"

text \<open>
  The \<^verbatim>\<open>session.update\<close> payload the hook sends: \<^verbatim>\<open>model\<close> and \<^verbatim>\<open>instructions\<close> vary,
  the audio block is the constant of lines 266-288 and is left out.
\<close>

record session_update =
  su_model :: string
  su_instructions :: "string option"

datatype RealtimeClientEvent =
    SessionUpdate session_update
  | ConversationItemCreate ConversationItem
  | ResponseCreate
  | InputAudioBufferAppend string
  | InputAudioBufferCommit
  | InputAudioBufferClear

text \<open>
  Server events carry the fields the handler reads: the item of
  \<^verbatim>\<open>conversation.item.created\<close>, \<^verbatim>\<open>response.output\<close> of \<^verbatim>\<open>response.done\<close>, the delta of
  \<^verbatim>\<open>response.text.delta\<close>, \<^verbatim>\<open>error.type\<close> and \<^verbatim>\<open>error.message\<close> of \<^verbatim>\<open>error\<close>.
  \<open>OtherEvent\<close> is any discriminant without a case in the switch
  (\<^verbatim>\<open>response.audio.delta\<close>, for one).
\<close>

datatype RealtimeServerEvent =
    SessionCreated
  | SessionUpdated
  | ConversationItemCreated ConversationItem
  | ResponseCreated
  | ResponseDone "ConversationItem list"
  | ResponseTextDelta string
  | SpeechStarted
  | SpeechStopped
  | ErrorEvent string string
  | OtherEvent string

record VoiceInterfaceState =
  isListening :: bool
  isConnected :: bool
  isConnecting :: bool
  isSpeaking :: bool
  hasPermission :: bool
  error :: "string option"
  currentResponse :: "string option"
  conversationHistory :: "ConversationItem list"

record WebRTCConnectionState =
  connected :: bool
  connecting :: bool
  conn_error :: "string option"
  peerConnection :: "nat option"
  dataChannel :: "nat option"
  audioElement :: "nat option"
  localStream :: "nat option"

text \<open>\<^verbatim>\<open>EphemeralTokenResponse\<close>, as far as the hook reads it. A field the JSON body lacks is
  \<open>None\<close> (\<^verbatim>\<open>undefined\<close> in the source).\<close>

record session_config =
  model :: "string option"
  instructions :: "string option"

record EphemeralTokenResponse =
  tok_value :: "string option"
  tok_session_config :: "session_config option"
  tok_error :: "string option"

subsection \<open>Browser objects\<close>

datatype ready_state = Connecting | Open | Closing | Closed

record data_channel =
  dc_label :: string
  readyState :: ready_state
  sent :: "RealtimeClientEvent list"

record peer_connection =
  pc_closed :: bool
  transceivers :: nat
  senders :: "(nat \<times> nat) list"
  localDescription :: "string option"
  remoteDescription :: "string option"

datatype track_kind = AudioTrack | VideoTrack

record media_track =
  kind :: track_kind
  enabled :: bool
  stopped :: bool

record audio_element =
  autoplay :: bool
  srcObject :: "nat option"

datatype request =
    TokenRequest
  | SdpRequest string string string

record browser =
  peers :: "nat \<rightharpoonup> peer_connection"
  channels :: "nat \<rightharpoonup> data_channel"
  streams :: "nat \<rightharpoonup> media_track list"
  audios :: "nat \<rightharpoonup> audio_element"
  next_handle :: nat
  network :: "request list"

subsection \<open>The hook's state\<close>

text \<open>Which of the optional callbacks of \<^verbatim>\<open>UseRealtimeVoiceOptions\<close> the caller passed.\<close>

record callbacks =
  onError :: bool
  onConnected :: bool
  onDisconnected :: bool
  onResponseReceived :: bool
  onSpeechStarted :: bool
  onSpeechStopped :: bool

datatype notification =
    NotifyError string
  | NotifyConnected
  | NotifyDisconnected
  | NotifyResponseReceived string
  | NotifySpeechStarted
  | NotifySpeechStopped

record hook =
  state :: VoiceInterfaceState
  connectionRef :: WebRTCConnectionState
  isMutedRef :: bool
  autoConnectAttemptedRef :: bool
  callbackRefs :: callbacks
  notified :: "notification list"
  browser :: browser

definition initial_state :: VoiceInterfaceState where
  "initial_state =
     \<lparr>isListening = False, isConnected = False, isConnecting = False, isSpeaking = False,
      hasPermission = False, error = None, currentResponse = None, conversationHistory = []\<rparr>"

text \<open>The object literal \<^verbatim>\<open>{ connected: false, connecting: false }\<close> of lines 59 and 404.\<close>

definition baseline :: WebRTCConnectionState where
  "baseline =
     \<lparr>connected = False, connecting = False, conn_error = None, peerConnection = None,
      dataChannel = None, audioElement = None, localStream = None\<rparr>"

definition empty_browser :: browser where
  "empty_browser =
     \<lparr>peers = Map.empty, channels = Map.empty, streams = Map.empty, audios = Map.empty,
      next_handle = 0, network = []\<rparr>"

definition initial_hook :: "callbacks \<Rightarrow> hook" where
  "initial_hook cbs =
     \<lparr>state = initial_state, connectionRef = baseline, isMutedRef = False,
      autoConnectAttemptedRef = False, callbackRefs = cbs, notified = [],
      browser = empty_browser\<rparr>"

definition setState :: "(VoiceInterfaceState \<Rightarrow> VoiceInterfaceState) \<Rightarrow> hook \<Rightarrow> hook" where
  "setState f s = s\<lparr>state := f (state s)\<rparr>"

text \<open>\<^verbatim>\<open>ref.current?.(args)\<close>: the callback runs when the caller passed one.\<close>

definition notify :: "bool \<Rightarrow> notification \<Rightarrow> hook \<Rightarrow> hook" where
  "notify registered n s = (if registered then s\<lparr>notified := notified s @ [n]\<rparr> else s)"

text \<open>JavaScript's \<^verbatim>\<open>a || b\<close> on an optional string: \<^verbatim>\<open>undefined\<close> and the empty string
  are falsy.\<close>

definition or_else :: "string option \<Rightarrow> string \<Rightarrow> string" where
  "or_else v d = (case v of None \<Rightarrow> d | Some t \<Rightarrow> if t = [] then d else t)"

subsection \<open>sendClientEvent (lines 84-89)\<close>

definition sendClientEvent :: "RealtimeClientEvent \<Rightarrow> hook \<Rightarrow> hook" where
  "sendClientEvent event s =
     (case dataChannel (connectionRef s) of
        None \<Rightarrow> s
      | Some h \<Rightarrow>
          (case channels (browser s) h of
             None \<Rightarrow> s
           | Some dc \<Rightarrow>
               if readyState dc = Open
               then s\<lparr>browser := (browser s)\<lparr>channels :=
                        (channels (browser s))(h \<mapsto> dc\<lparr>sent := sent dc @ [event]\<rparr>)\<rparr>\<rparr>
               else s))"

subsection \<open>handleServerEvent (lines 92-154)\<close>

text \<open>Lines 122-124: the first output item whose role is assistant, then the first part of
  type text in its content, then that part's text; each step may be undefined.\<close>

definition textContent :: "ConversationItem list \<Rightarrow> string option" where
  "textContent out =
     (case List.find (\<lambda>item. role item = Some Assistant) out of
        None \<Rightarrow> None
      | Some item \<Rightarrow>
          (case content item of
             None \<Rightarrow> None
           | Some parts \<Rightarrow>
               (case List.find (\<lambda>c. part_type c = Text) parts of
                  None \<Rightarrow> None
                | Some c \<Rightarrow> part_text c)))"

fun handleServerEvent :: "RealtimeServerEvent \<Rightarrow> hook \<Rightarrow> hook" where
  "handleServerEvent SessionCreated s = s"
| "handleServerEvent SessionUpdated s = s"
| "handleServerEvent (ConversationItemCreated item) s =
     setState (\<lambda>prev. prev\<lparr>conversationHistory := conversationHistory prev @ [item]\<rparr>) s"
| "handleServerEvent ResponseCreated s = setState (\<lambda>prev. prev\<lparr>isSpeaking := True\<rparr>) s"
| "handleServerEvent (ResponseDone out) s =
     (let s1 = setState (\<lambda>prev. prev\<lparr>isSpeaking := False\<rparr>) s
      in case textContent out of
           None \<Rightarrow> s1
         | Some t \<Rightarrow>
             if t \<noteq> [] \<and> onResponseReceived (callbackRefs s1)
             then notify True (NotifyResponseReceived t) s1
             else s1)"
| "handleServerEvent (ResponseTextDelta delta) s =
     setState (\<lambda>prev. prev\<lparr>currentResponse :=
        Some (or_else (currentResponse prev) [] @ delta)\<rparr>) s"
| "handleServerEvent SpeechStarted s =
     notify (onSpeechStarted (callbackRefs s)) NotifySpeechStarted
       (setState (\<lambda>prev. prev\<lparr>isListening := True\<rparr>) s)"
| "handleServerEvent SpeechStopped s =
     notify (onSpeechStopped (callbackRefs s)) NotifySpeechStopped
       (setState (\<lambda>prev. prev\<lparr>isListening := False\<rparr>) s)"
| "handleServerEvent (ErrorEvent ty msg) s =
     (let errorMessage = ty @ '': '' @ msg
      in notify (onError (callbackRefs s)) (NotifyError errorMessage)
           (setState (\<lambda>prev. prev\<lparr>error := Some errorMessage\<rparr>) s))"
| "handleServerEvent (OtherEvent ty) s = s"

text \<open>The inbound events of a session, in arrival order.\<close>

definition handleServerEvents :: "RealtimeServerEvent list \<Rightarrow> hook \<Rightarrow> hook" where
  "handleServerEvents evs s = foldl (\<lambda>acc ev. handleServerEvent ev acc) s evs"

subsection \<open>disconnect (lines 380-422)\<close>

text \<open>\<^verbatim>\<open>close()\<close>, \<^verbatim>\<open>stop()\<close> and the assignment to \<^verbatim>\<open>srcObject\<close> act on the object behind the
  handle. A handle always refers to an object in JavaScript; on a handle without an object
  the store is left as it is.\<close>

definition close_channel :: "nat \<Rightarrow> browser \<Rightarrow> browser" where
  "close_channel h b =
     (case channels b h of
        None \<Rightarrow> b
      | Some dc \<Rightarrow> b\<lparr>channels := (channels b)(h \<mapsto> dc\<lparr>readyState := Closed\<rparr>)\<rparr>)"

definition close_peer :: "nat \<Rightarrow> browser \<Rightarrow> browser" where
  "close_peer h b =
     (case peers b h of
        None \<Rightarrow> b
      | Some pc \<Rightarrow> b\<lparr>peers := (peers b)(h \<mapsto> pc\<lparr>pc_closed := True\<rparr>)\<rparr>)"

definition stop_tracks :: "nat \<Rightarrow> browser \<Rightarrow> browser" where
  "stop_tracks h b =
     (case streams b h of
        None \<Rightarrow> b
      | Some ts \<Rightarrow> b\<lparr>streams := (streams b)(h \<mapsto> map (\<lambda>t. t\<lparr>stopped := True\<rparr>) ts)\<rparr>)"

definition detach_sink :: "nat \<Rightarrow> browser \<Rightarrow> browser" where
  "detach_sink h b =
     (case audios b h of
        None \<Rightarrow> b
      | Some a \<Rightarrow> b\<lparr>audios := (audios b)(h \<mapsto> a\<lparr>srcObject := None\<rparr>)\<rparr>)"

definition on_handle :: "nat option \<Rightarrow> (nat \<Rightarrow> browser \<Rightarrow> browser) \<Rightarrow> browser \<Rightarrow> browser" where
  "on_handle ref f b = (case ref of None \<Rightarrow> b | Some h \<Rightarrow> f h b)"

definition disconnect :: "hook \<Rightarrow> hook" where
  "disconnect s =
     (let c = connectionRef s;
          b1 = on_handle (dataChannel c) close_channel (browser s);
          b2 = on_handle (peerConnection c) close_peer b1;
          b3 = on_handle (localStream c) stop_tracks b2;
          b4 = on_handle (audioElement c) detach_sink b3;
          s1 = s\<lparr>browser := b4, connectionRef := baseline, autoConnectAttemptedRef := False\<rparr>;
          s2 = setState (\<lambda>prev. prev\<lparr>isConnected := False, isConnecting := False,
                 isListening := False, isSpeaking := False, error := None\<rparr>) s1
      in notify (onDisconnected (callbackRefs s2)) NotifyDisconnected s2)"

subsection \<open>sendMessage (lines 425-455)\<close>

definition user_message :: "string \<Rightarrow> ConversationItem" where
  "user_message message =
     \<lparr>item_id = None, item_type = Message, status = None, role = Some User,
      content = Some [\<lparr>part_type = Input_text, part_text = Some message, audio = None,
                       transcript = None\<rparr>],
      name = None, call_id = None, arguments = None, item_output = None\<rparr>"

definition sendMessage :: "string \<Rightarrow> hook \<Rightarrow> hook" where
  "sendMessage message s =
     (if \<not> connected (connectionRef s) then s
      else
        let conversationItem = user_message message;
            s1 = sendClientEvent (ConversationItemCreate conversationItem) s;
            s2 = sendClientEvent ResponseCreate s1
        in setState (\<lambda>prev. prev\<lparr>conversationHistory :=
             conversationHistory prev @ [conversationItem]\<rparr>) s2)"

subsection \<open>toggleMute (lines 458-467) and clearConversation (lines 470-476)\<close>

text \<open>\<^verbatim>\<open>getAudioTracks()[0]\<close>: the position of the first audio track, if there is one.\<close>

fun first_audio :: "media_track list \<Rightarrow> nat option" where
  "first_audio [] = None"
| "first_audio (t # ts) =
     (if kind t = AudioTrack then Some 0 else map_option Suc (first_audio ts))"

definition toggleMute :: "hook \<Rightarrow> hook" where
  "toggleMute s =
     (case localStream (connectionRef s) of
        None \<Rightarrow> s
      | Some h \<Rightarrow>
          (case streams (browser s) h of
             None \<Rightarrow> s
           | Some ts \<Rightarrow>
               (case first_audio ts of
                  None \<Rightarrow> s
                | Some i \<Rightarrow>
                    let muted = \<not> isMutedRef s
                    in s\<lparr>isMutedRef := muted,
                         browser := (browser s)\<lparr>streams :=
                           (streams (browser s))(h \<mapsto> ts[i := (ts ! i)\<lparr>enabled := \<not> muted\<rparr>])\<rparr>\<rparr>)))"

definition clearConversation :: "hook \<Rightarrow> hook" where
  "clearConversation s =
     setState (\<lambda>prev. prev\<lparr>conversationHistory := [], currentResponse := None\<rparr>) s"

subsection \<open>The connect path: environment and browser operations\<close>

text \<open>
  \<^verbatim>\<open>connect\<close> is an async function: it runs until an \<^verbatim>\<open>await\<close>, and goes on when the
  awaited promise settles. What the outside world answers at each \<^verbatim>\<open>await\<close> is an input of
  the model: a promise resolves with a value, rejects with a thrown value, or never
  settles. A thrown value is an \<^verbatim>\<open>Error\<close> with its message, or something that is not an
  \<^verbatim>\<open>Error\<close> (line 368 tells them apart).
\<close>

datatype thrown = ErrorObj string | NonError

datatype 'a outcome = Resolved 'a | Rejected thrown | Never

text \<open>The reply of the token endpoint: \<^verbatim>\<open>response.ok\<close> and what \<^verbatim>\<open>response.json()\<close>
  gives: \<open>Inl\<close> when it rejects, or when the body is not a JSON object, so that reading a
  field of it throws at once. The reply of the signalling endpoint: \<^verbatim>\<open>ok\<close>, \<^verbatim>\<open>status\<close> and what
  \<^verbatim>\<open>text()\<close> gives.\<close>

record token_reply =
  tr_ok :: bool
  tr_json :: "thrown + EphemeralTokenResponse"

record sdp_reply =
  sr_ok :: bool
  sr_status :: nat
  sr_text :: "thrown + string"

text \<open>
  One answer for every point where \<^verbatim>\<open>connect\<close> depends on the outside: the two constructors
  that may throw (\<open>None\<close>: no exception), the promises it awaits, and \<open>gathered_sdp\<close>, the
  value of \<^verbatim>\<open>pc.localDescription?.sdp\<close> once ICE gathering is complete. The calls on
  objects the function has just created (\<^verbatim>\<open>createElement\<close>, \<^verbatim>\<open>addTransceiver\<close>, \<^verbatim>\<open>addTrack\<close>)
  are taken not to throw.
\<close>

record env =
  token_fetch :: "token_reply outcome"
  peer_ctor :: "thrown option"
  user_media :: "media_track list outcome"
  dc_ctor :: "thrown option"
  create_offer :: "string outcome"
  set_local :: "unit outcome"
  ice_complete :: bool
  gathered_sdp :: "string option"
  sdp_fetch :: "sdp_reply outcome"
  set_remote :: "unit outcome"

definition new_RTCPeerConnection :: "browser \<Rightarrow> nat \<times> browser" where
  "new_RTCPeerConnection b =
     (next_handle b,
      b\<lparr>peers := (peers b)(next_handle b \<mapsto>
           \<lparr>pc_closed = False, transceivers = 0, senders = [], localDescription = None,
            remoteDescription = None\<rparr>),
        next_handle := Suc (next_handle b)\<rparr>)"

definition createElement_audio :: "browser \<Rightarrow> nat \<times> browser" where
  "createElement_audio b =
     (next_handle b,
      b\<lparr>audios := (audios b)(next_handle b \<mapsto> \<lparr>autoplay = False, srcObject = None\<rparr>),
        next_handle := Suc (next_handle b)\<rparr>)"

definition new_MediaStream :: "media_track list \<Rightarrow> browser \<Rightarrow> nat \<times> browser" where
  "new_MediaStream ts b =
     (next_handle b,
      b\<lparr>streams := (streams b)(next_handle b \<mapsto> ts), next_handle := Suc (next_handle b)\<rparr>)"

definition createDataChannel :: "string \<Rightarrow> browser \<Rightarrow> nat \<times> browser" where
  "createDataChannel l b =
     (next_handle b,
      b\<lparr>channels := (channels b)(next_handle b \<mapsto>
           \<lparr>dc_label = l, readyState = Connecting, sent = []\<rparr>),
        next_handle := Suc (next_handle b)\<rparr>)"

definition update_peer :: "nat \<Rightarrow> (peer_connection \<Rightarrow> peer_connection) \<Rightarrow> browser \<Rightarrow> browser" where
  "update_peer h f b =
     (case peers b h of None \<Rightarrow> b | Some pc \<Rightarrow> b\<lparr>peers := (peers b)(h \<mapsto> f pc)\<rparr>)"

definition update_audio :: "nat \<Rightarrow> (audio_element \<Rightarrow> audio_element) \<Rightarrow> browser \<Rightarrow> browser" where
  "update_audio h f b =
     (case audios b h of None \<Rightarrow> b | Some a \<Rightarrow> b\<lparr>audios := (audios b)(h \<mapsto> f a)\<rparr>)"

text \<open>\<^verbatim>\<open>pc.signalingState !== 'closed'\<close> (line 224).\<close>

definition signaling_open :: "nat \<Rightarrow> browser \<Rightarrow> bool" where
  "signaling_open h b = (case peers b h of None \<Rightarrow> False | Some pc \<Rightarrow> \<not> pc_closed pc)"

definition local_sdp :: "nat \<Rightarrow> browser \<Rightarrow> string option" where
  "local_sdp h b = (case peers b h of None \<Rightarrow> None | Some pc \<Rightarrow> localDescription pc)"

definition fetch :: "request \<Rightarrow> hook \<Rightarrow> hook" where
  "fetch r s = s\<lparr>browser := (browser s)\<lparr>network := network (browser s) @ [r]\<rparr>\<rparr>"

text \<open>A value in a template literal: \<^verbatim>\<open>undefined\<close> prints as the word.\<close>

definition template :: "string option \<Rightarrow> string" where
  "template v = (case v of None \<Rightarrow> ''undefined'' | Some t \<Rightarrow> t)"

definition digit_char :: "nat \<Rightarrow> char" where
  "digit_char d = ''0123456789'' ! d"

function string_of_nat :: "nat \<Rightarrow> string" where
  "string_of_nat n =
     (if n < 10 then [digit_char n] else string_of_nat (n div 10) @ [digit_char (n mod 10)])"
  by pat_completeness auto
termination
  by (relation "measure id") auto

declare string_of_nat.simps [simp del]

subsection \<open>getEphemeralToken (lines 157-172)\<close>

text \<open>The function issues one \<^verbatim>\<open>fetch\<close> and interprets the reply; the request is logged by
  \<open>connect_begin\<close> below, the interpretation is this function.\<close>

definition getEphemeralToken :: "token_reply outcome \<Rightarrow> EphemeralTokenResponse outcome" where
  "getEphemeralToken r =
     (case r of
        Never \<Rightarrow> Never
      | Rejected e \<Rightarrow> Rejected e
      | Resolved response \<Rightarrow>
          if \<not> tr_ok response
          then (case tr_json response of
                  Inl e \<Rightarrow> Rejected e
                | Inr err \<Rightarrow>
                    Rejected (ErrorObj (or_else (tok_error err) ''Failed to get ephemeral token'')))
          else (case tr_json response of
                  Inl e \<Rightarrow> Rejected e
                | Inr tokenData \<Rightarrow> Resolved tokenData))"

subsection \<open>Data-channel and peer-connection handlers (lines 198-204, 244-315)\<close>

definition pc_ontrack :: "nat \<Rightarrow> track_kind \<Rightarrow> nat option \<Rightarrow> hook \<Rightarrow> hook" where
  "pc_ontrack audioEl k stream0 s =
     (if k = AudioTrack \<and> stream0 \<noteq> None
      then s\<lparr>browser := update_audio audioEl (\<lambda>a. a\<lparr>srcObject := stream0\<rparr>) (browser s)\<rparr>
      else s)"

definition dc_onopen :: "EphemeralTokenResponse \<Rightarrow> hook \<Rightarrow> hook" where
  "dc_onopen tokenData s =
     (let s1 = s\<lparr>connectionRef := (connectionRef s)\<lparr>connected := True, connecting := False\<rparr>\<rparr>;
          s2 = setState (\<lambda>prev. prev\<lparr>isConnected := True, isConnecting := False,
                 error := None\<rparr>) s1;
          s3 = notify (onConnected (callbackRefs s2)) NotifyConnected s2;
          cfg = tok_session_config tokenData
      in sendClientEvent (SessionUpdate
           \<lparr>su_model = or_else (case cfg of None \<Rightarrow> None | Some c \<Rightarrow> model c) ''gpt-realtime'',
            su_instructions = (case cfg of None \<Rightarrow> None | Some c \<Rightarrow> instructions c)\<rparr>) s3)"

text \<open>\<^verbatim>\<open>JSON.parse\<close> of a message that is not an event throws inside the handler's own
  \<^verbatim>\<open>try\<close>; the message is dropped (\<open>None\<close>).\<close>

definition dc_onmessage :: "RealtimeServerEvent option \<Rightarrow> hook \<Rightarrow> hook" where
  "dc_onmessage parsed s = (case parsed of None \<Rightarrow> s | Some ev \<Rightarrow> handleServerEvent ev s)"

definition dc_onerror :: "hook \<Rightarrow> hook" where
  "dc_onerror s = setState (\<lambda>prev. prev\<lparr>error := Some ''Data channel error''\<rparr>) s"

definition dc_onclose :: "hook \<Rightarrow> hook" where
  "dc_onclose s =
     (let s1 = s\<lparr>connectionRef := (connectionRef s)\<lparr>connected := False\<rparr>\<rparr>;
          s2 = setState (\<lambda>prev. prev\<lparr>isConnected := False\<rparr>) s1
      in notify (onDisconnected (callbackRefs s2)) NotifyDisconnected s2)"

text \<open>The browser's side of a channel opening or closing: the ready state changes, then
  the event runs the handler.\<close>

definition channel_opens :: "nat \<Rightarrow> EphemeralTokenResponse \<Rightarrow> hook \<Rightarrow> hook" where
  "channel_opens h tokenData s =
     dc_onopen tokenData
       (s\<lparr>browser := (case channels (browser s) h of
            None \<Rightarrow> browser s
          | Some dc \<Rightarrow> (browser s)\<lparr>channels :=
              (channels (browser s))(h \<mapsto> dc\<lparr>readyState := Open\<rparr>)\<rparr>)\<rparr>)"

definition channel_closes :: "nat \<Rightarrow> hook \<Rightarrow> hook" where
  "channel_closes h s = dc_onclose (s\<lparr>browser := close_channel h (browser s)\<rparr>)"

subsection \<open>connect (lines 175-377)\<close>

text \<open>The \<^verbatim>\<open>catch\<close> block of lines 362-376.\<close>

definition error_message :: "thrown \<Rightarrow> string" where
  "error_message e = (case e of ErrorObj m \<Rightarrow> m | NonError \<Rightarrow> ''Connection failed'')"

definition connect_catch :: "thrown \<Rightarrow> hook \<Rightarrow> hook" where
  "connect_catch e s =
     (let s1 = s\<lparr>connectionRef := (connectionRef s)\<lparr>connecting := False, connected := False\<rparr>\<rparr>;
          errorMessage = error_message e;
          s2 = setState (\<lambda>prev. prev\<lparr>isConnecting := False, isConnected := False,
                 error := Some errorMessage\<rparr>) s1
      in notify (onError (callbackRefs s2)) (NotifyError errorMessage) s2)"

text \<open>
  The points where \<^verbatim>\<open>connect\<close> is suspended, each with the local variables the rest of the
  function still reads: the token (185), the microphone (211), the offer (318), the local
  description (319), ICE gathering (323), the SDP exchange (340-354) and the remote
  description (360). A run of \<^verbatim>\<open>connect\<close> has returned (\<open>Finished\<close>) or is waiting
  (\<open>Suspended\<close>).
\<close>

datatype pending =
    AwaitToken
  | AwaitUserMedia EphemeralTokenResponse nat nat
  | AwaitOffer EphemeralTokenResponse nat
  | AwaitSetLocal EphemeralTokenResponse nat string
  | AwaitIce EphemeralTokenResponse nat string
  | AwaitSdp nat
  | AwaitSetRemote nat string

datatype run = Finished hook | Suspended pending hook

text \<open>Lines 175-185: the guard, the two flags, and the token request.\<close>

definition request_token :: "hook \<Rightarrow> hook" where
  "request_token s =
     (let s1 = setState (\<lambda>prev. prev\<lparr>isConnecting := True, error := None\<rparr>) s;
          s2 = s1\<lparr>connectionRef := (connectionRef s1)\<lparr>connecting := True\<rparr>\<rparr>
      in fetch TokenRequest s2)"

definition connect_begin :: "hook \<Rightarrow> run" where
  "connect_begin s =
     (if connecting (connectionRef s) \<or> connected (connectionRef s) then Finished s
      else Suspended AwaitToken (request_token s))"

text \<open>Lines 189-207: the peer connection and the audio element are created and stored in
  the ref, the \<^verbatim>\<open>ontrack\<close> handler is set, and the audio transceiver is requested. The
  result is the two new handles and the state.\<close>

definition build_peer :: "hook \<Rightarrow> nat \<times> nat \<times> hook" where
  "build_peer s =
     (let (pc, b1) = new_RTCPeerConnection (browser s);
          s1 = s\<lparr>browser := b1,
                 connectionRef := (connectionRef s)\<lparr>peerConnection := Some pc\<rparr>\<rparr>;
          (audioEl, b2) = createElement_audio (browser s1);
          b3 = update_audio audioEl (\<lambda>a. a\<lparr>autoplay := True\<rparr>) b2;
          s2 = s1\<lparr>browser := b3,
                  connectionRef := (connectionRef s1)\<lparr>audioElement := Some audioEl\<rparr>\<rparr>;
          s3 = s2\<lparr>browser := update_peer pc
                  (\<lambda>p. p\<lparr>transceivers := Suc (transceivers p)\<rparr>) (browser s2)\<rparr>
      in (pc, audioEl, s3))"

text \<open>Lines 185-211: the token arrives; peer connection, audio element, transceiver; the
  microphone is asked for.\<close>

definition after_token :: "env \<Rightarrow> hook \<Rightarrow> run" where
  "after_token ev s =
     (case getEphemeralToken (token_fetch ev) of
        Never \<Rightarrow> Suspended AwaitToken s
      | Rejected e \<Rightarrow> Finished (connect_catch e s)
      | Resolved tokenData \<Rightarrow>
          (case peer_ctor ev of
             Some e \<Rightarrow> Finished (connect_catch e s)
           | None \<Rightarrow>
               let (pc, audioEl, s3) = build_peer s
               in Suspended (AwaitUserMedia tokenData pc audioEl) s3))"

text \<open>Lines 220-228: the stream is stored, its first audio track is added to the peer
  connection unless that is closed, and \<^verbatim>\<open>hasPermission\<close> is set.\<close>

definition media_granted :: "media_track list \<Rightarrow> nat \<Rightarrow> hook \<Rightarrow> hook" where
  "media_granted ts pc s =
     (let (stream, b1) = new_MediaStream ts (browser s);
          s1 = s\<lparr>browser := b1,
                 connectionRef := (connectionRef s)\<lparr>localStream := Some stream\<rparr>\<rparr>;
          s2 = (case first_audio ts of
                  None \<Rightarrow> s1
                | Some audioTrack \<Rightarrow>
                    if signaling_open pc (browser s1)
                    then s1\<lparr>browser := update_peer pc
                           (\<lambda>p. p\<lparr>senders := senders p @ [(stream, audioTrack)]\<rparr>)
                           (browser s1)\<rparr>
                    else s1)
      in setState (\<lambda>prev. prev\<lparr>hasPermission := True\<rparr>) s2)"

text \<open>Lines 229-238: the inner \<^verbatim>\<open>catch\<close>.\<close>

definition media_refused :: "hook \<Rightarrow> hook" where
  "media_refused s =
     setState (\<lambda>prev. prev\<lparr>error := Some ''Microphone permission denied or not available'',
       hasPermission := False\<rparr>) s"

text \<open>Lines 241-315: the data channel is created and stored in the ref; its four handlers
  are the functions \<open>dc_onopen\<close>, \<open>dc_onmessage\<close>, \<open>dc_onerror\<close> and \<open>dc_onclose\<close>.\<close>

definition open_data_channel :: "hook \<Rightarrow> hook" where
  "open_data_channel s =
     (let (dc, b) = createDataChannel ''oai-events'' (browser s)
      in s\<lparr>browser := b, connectionRef := (connectionRef s)\<lparr>dataChannel := Some dc\<rparr>\<rparr>)"

text \<open>Lines 210-318: the microphone answers. The inner \<^verbatim>\<open>catch\<close> returns from
  \<^verbatim>\<open>connect\<close>. Otherwise the data channel is created and the offer asked for.\<close>

definition after_user_media :: "env \<Rightarrow> EphemeralTokenResponse \<Rightarrow> nat \<Rightarrow> nat \<Rightarrow> hook \<Rightarrow> run" where
  "after_user_media ev tokenData pc audioEl s =
     (case user_media ev of
        Never \<Rightarrow> Suspended (AwaitUserMedia tokenData pc audioEl) s
      | Rejected err \<Rightarrow> Finished (media_refused s)
      | Resolved ts \<Rightarrow>
          let s3 = media_granted ts pc s
          in (case dc_ctor ev of
                Some e \<Rightarrow> Finished (connect_catch e s3)
              | None \<Rightarrow> Suspended (AwaitOffer tokenData pc) (open_data_channel s3)))"

text \<open>Lines 318-319.\<close>

definition after_offer :: "env \<Rightarrow> EphemeralTokenResponse \<Rightarrow> nat \<Rightarrow> hook \<Rightarrow> run" where
  "after_offer ev tokenData pc s =
     (case create_offer ev of
        Never \<Rightarrow> Suspended (AwaitOffer tokenData pc) s
      | Rejected e \<Rightarrow> Finished (connect_catch e s)
      | Resolved offer \<Rightarrow> Suspended (AwaitSetLocal tokenData pc offer) s)"

definition after_set_local :: "env \<Rightarrow> EphemeralTokenResponse \<Rightarrow> nat \<Rightarrow> string \<Rightarrow> hook \<Rightarrow> run" where
  "after_set_local ev tokenData pc offer s =
     (case set_local ev of
        Never \<Rightarrow> Suspended (AwaitSetLocal tokenData pc offer) s
      | Rejected e \<Rightarrow> Finished (connect_catch e s)
      | Resolved u \<Rightarrow>
          Suspended (AwaitIce tokenData pc offer)
            (s\<lparr>browser := update_peer pc (\<lambda>p. p\<lparr>localDescription := Some offer\<rparr>)
                 (browser s)\<rparr>))"

text \<open>Lines 322-347: once gathering is complete the offer is posted, with the model as
  query parameter and the token as bearer.\<close>

definition post_offer :: "env \<Rightarrow> EphemeralTokenResponse \<Rightarrow> nat \<Rightarrow> string \<Rightarrow> hook \<Rightarrow> hook" where
  "post_offer ev tokenData pc offer s =
     (let s1 = s\<lparr>browser := update_peer pc (\<lambda>p. p\<lparr>localDescription := gathered_sdp ev\<rparr>)
                   (browser s)\<rparr>;
          ephemeralKey = tok_value tokenData;
          baseUrl = ''https://api.openai.com/v1/realtime/calls'';
          model = (case tok_session_config tokenData of None \<Rightarrow> None | Some c \<Rightarrow> model c)
      in fetch (SdpRequest (baseUrl @ ''?model='' @ template model)
                  (''Bearer '' @ template ephemeralKey)
                  (or_else (local_sdp pc (browser s1)) offer)) s1)"

definition after_ice :: "env \<Rightarrow> EphemeralTokenResponse \<Rightarrow> nat \<Rightarrow> string \<Rightarrow> hook \<Rightarrow> run" where
  "after_ice ev tokenData pc offer s =
     (if \<not> ice_complete ev then Suspended (AwaitIce tokenData pc offer) s
      else Suspended (AwaitSdp pc) (post_offer ev tokenData pc offer s))"

text \<open>Lines 349-360. The error of lines 350-351: \<^verbatim>\<open>text().catch(() => '')\<close> turns a
  failing read of the body into the empty text.\<close>

definition sdp_failure :: "sdp_reply \<Rightarrow> thrown" where
  "sdp_failure sdpResponse =
     (let errText = (case sr_text sdpResponse of Inl e \<Rightarrow> [] | Inr t \<Rightarrow> t)
      in ErrorObj (''Failed to connect to OpenAI: '' @ string_of_nat (sr_status sdpResponse)
           @ (if errText \<noteq> [] then '' - '' @ errText else [])))"

definition after_sdp :: "env \<Rightarrow> nat \<Rightarrow> hook \<Rightarrow> run" where
  "after_sdp ev pc s =
     (case sdp_fetch ev of
        Never \<Rightarrow> Suspended (AwaitSdp pc) s
      | Rejected e \<Rightarrow> Finished (connect_catch e s)
      | Resolved sdpResponse \<Rightarrow>
          if \<not> sr_ok sdpResponse
          then Finished (connect_catch (sdp_failure sdpResponse) s)
          else (case sr_text sdpResponse of
                  Inl e \<Rightarrow> Finished (connect_catch e s)
                | Inr answerSdp \<Rightarrow> Suspended (AwaitSetRemote pc answerSdp) s))"

definition after_set_remote :: "env \<Rightarrow> nat \<Rightarrow> string \<Rightarrow> hook \<Rightarrow> run" where
  "after_set_remote ev pc answerSdp s =
     (case set_remote ev of
        Never \<Rightarrow> Suspended (AwaitSetRemote pc answerSdp) s
      | Rejected e \<Rightarrow> Finished (connect_catch e s)
      | Resolved u \<Rightarrow>
          Finished (s\<lparr>browser := update_peer pc
            (\<lambda>p. p\<lparr>remoteDescription := Some answerSdp\<rparr>) (browser s)\<rparr>))"

text \<open>A suspended run goes on from where it waits; a finished one stays finished.\<close>

fun resume :: "env \<Rightarrow> pending \<Rightarrow> hook \<Rightarrow> run" where
  "resume ev AwaitToken s = after_token ev s"
| "resume ev (AwaitUserMedia tokenData pc audioEl) s = after_user_media ev tokenData pc audioEl s"
| "resume ev (AwaitOffer tokenData pc) s = after_offer ev tokenData pc s"
| "resume ev (AwaitSetLocal tokenData pc offer) s = after_set_local ev tokenData pc offer s"
| "resume ev (AwaitIce tokenData pc offer) s = after_ice ev tokenData pc offer s"
| "resume ev (AwaitSdp pc) s = after_sdp ev pc s"
| "resume ev (AwaitSetRemote pc answerSdp) s = after_set_remote ev pc answerSdp s"

fun continue :: "env \<Rightarrow> run \<Rightarrow> run" where
  "continue ev (Finished s) = Finished s"
| "continue ev (Suspended p s) = resume ev p s"

text \<open>The whole of \<^verbatim>\<open>connect\<close> against one environment: the synchronous start, then the
  seven suspension points in the order of the source.\<close>

definition connect :: "env \<Rightarrow> hook \<Rightarrow> run" where
  "connect ev s =
     continue ev (continue ev (continue ev (continue ev (continue ev (continue ev
       (continue ev (connect_begin s)))))))"

definition final :: "run \<Rightarrow> hook" where
  "final r = (case r of Finished s \<Rightarrow> s | Suspended p s \<Rightarrow> s)"

subsection \<open>Which exception reaches the catch block\<close>

text \<open>
  Read off the control flow of \<^verbatim>\<open>connect\<close>: the exception that arrives at the \<^verbatim>\<open>catch\<close> of
  line 362 when the function goes on from a suspension point against an environment, if one
  does. A rejected microphone request is handled by the inner \<^verbatim>\<open>catch\<close> of line 229 and
  does not arrive there; a promise that never settles throws nothing.
\<close>

definition caught_after_set_remote :: "env \<Rightarrow> thrown option" where
  "caught_after_set_remote ev =
     (case set_remote ev of Never \<Rightarrow> None | Rejected e \<Rightarrow> Some e | Resolved u \<Rightarrow> None)"

definition caught_after_sdp :: "env \<Rightarrow> thrown option" where
  "caught_after_sdp ev =
     (case sdp_fetch ev of
        Never \<Rightarrow> None
      | Rejected e \<Rightarrow> Some e
      | Resolved sdpResponse \<Rightarrow>
          if \<not> sr_ok sdpResponse then Some (sdp_failure sdpResponse)
          else (case sr_text sdpResponse of
                  Inl e \<Rightarrow> Some e
                | Inr answerSdp \<Rightarrow> caught_after_set_remote ev))"

definition caught_after_ice :: "env \<Rightarrow> thrown option" where
  "caught_after_ice ev = (if \<not> ice_complete ev then None else caught_after_sdp ev)"

definition caught_after_set_local :: "env \<Rightarrow> thrown option" where
  "caught_after_set_local ev =
     (case set_local ev of
        Never \<Rightarrow> None | Rejected e \<Rightarrow> Some e | Resolved u \<Rightarrow> caught_after_ice ev)"

definition caught_after_offer :: "env \<Rightarrow> thrown option" where
  "caught_after_offer ev =
     (case create_offer ev of
        Never \<Rightarrow> None | Rejected e \<Rightarrow> Some e | Resolved offer \<Rightarrow> caught_after_set_local ev)"

definition caught_after_user_media :: "env \<Rightarrow> thrown option" where
  "caught_after_user_media ev =
     (case user_media ev of
        Never \<Rightarrow> None
      | Rejected err \<Rightarrow> None
      | Resolved ts \<Rightarrow>
          (case dc_ctor ev of Some e \<Rightarrow> Some e | None \<Rightarrow> caught_after_offer ev))"

definition caught :: "env \<Rightarrow> thrown option" where
  "caught ev =
     (case getEphemeralToken (token_fetch ev) of
        Never \<Rightarrow> None
      | Rejected e \<Rightarrow> Some e
      | Resolved tokenData \<Rightarrow>
          (case peer_ctor ev of Some e \<Rightarrow> Some e | None \<Rightarrow> caught_after_user_media ev))"

text \<open>The run got as far as line 190: the token arrived and the constructor did not throw.\<close>

definition peer_built :: "env \<Rightarrow> bool" where
  "peer_built ev =
     (case getEphemeralToken (token_fetch ev) of
        Resolved tokenData \<Rightarrow> peer_ctor ev = None
      | Rejected e \<Rightarrow> False
      | Never \<Rightarrow> False)"

text \<open>Connection State holds a peer connection that has not been closed.\<close>

definition has_live_peer :: "hook \<Rightarrow> bool" where
  "has_live_peer s =
     (case peerConnection (connectionRef s) of
        None \<Rightarrow> False
      | Some h \<Rightarrow> (case peers (browser s) h of None \<Rightarrow> False | Some pc \<Rightarrow> \<not> pc_closed pc))"

text \<open>The resources of an attempt whose peer connection has handle \<open>n\<close> are held:
  Connection State refers to the open peer connection and to the audio element created
  next to it.\<close>

definition holds_peer :: "nat \<Rightarrow> hook \<Rightarrow> bool" where
  "holds_peer n s =
     (has_live_peer s \<and> peerConnection (connectionRef s) = Some n \<and>
      audioElement (connectionRef s) = Some (Suc n))"

text \<open>A state in the middle of an attempt that started in \<open>s0\<close>: the resources are held,
  and no callback has run since. A run that ended in the \<^verbatim>\<open>catch\<close> block with exception
  \<open>e\<close>, entered from such a state.\<close>

definition in_attempt :: "nat \<Rightarrow> hook \<Rightarrow> hook \<Rightarrow> bool" where
  "in_attempt n s0 x =
     (holds_peer n x \<and> notified x = notified s0 \<and> callbackRefs x = callbackRefs s0)"

definition caught_in :: "thrown \<Rightarrow> nat \<Rightarrow> hook \<Rightarrow> run \<Rightarrow> bool" where
  "caught_in e n s0 r = (\<exists>x. r = Finished (connect_catch e x) \<and> in_attempt n s0 x)"

subsection \<open>One step of connect, in any state\<close>

text \<open>
  The exception that reaches the \<^verbatim>\<open>catch\<close> of line 362 in the piece of \<^verbatim>\<open>connect\<close> that runs
  from one suspension point to the next, if one does. Other actions of the hook may have
  run before the piece starts, so it is read off for a single piece, not for a whole run.
\<close>

fun thrown_at :: "env \<Rightarrow> pending \<Rightarrow> thrown option" where
  "thrown_at ev AwaitToken =
     (case getEphemeralToken (token_fetch ev) of
        Never \<Rightarrow> None
      | Rejected e \<Rightarrow> Some e
      | Resolved tokenData \<Rightarrow> peer_ctor ev)"
| "thrown_at ev (AwaitUserMedia tokenData pc audioEl) =
     (case user_media ev of
        Never \<Rightarrow> None
      | Rejected err \<Rightarrow> None
      | Resolved ts \<Rightarrow> dc_ctor ev)"
| "thrown_at ev (AwaitOffer tokenData pc) =
     (case create_offer ev of Never \<Rightarrow> None | Rejected e \<Rightarrow> Some e | Resolved offer \<Rightarrow> None)"
| "thrown_at ev (AwaitSetLocal tokenData pc offer) =
     (case set_local ev of Never \<Rightarrow> None | Rejected e \<Rightarrow> Some e | Resolved u \<Rightarrow> None)"
| "thrown_at ev (AwaitIce tokenData pc offer) = None"
| "thrown_at ev (AwaitSdp pc) =
     (case sdp_fetch ev of
        Never \<Rightarrow> None
      | Rejected e \<Rightarrow> Some e
      | Resolved sdpResponse \<Rightarrow>
          if \<not> sr_ok sdpResponse then Some (sdp_failure sdpResponse)
          else (case sr_text sdpResponse of Inl e \<Rightarrow> Some e | Inr answerSdp \<Rightarrow> None))"
| "thrown_at ev (AwaitSetRemote pc answerSdp) =
     (case set_remote ev of Never \<Rightarrow> None | Rejected e \<Rightarrow> Some e | Resolved u \<Rightarrow> None)"

text \<open>
  No step of the teardown has been taken between two states: of the objects that exist in
  the first (their handles are below \<open>next_handle\<close>), no peer connection has changed its
  closed flag, and every channel, stream and audio element is as it was; and no handle
  of Connection State has been cleared.
\<close>

definition untouched :: "hook \<Rightarrow> hook \<Rightarrow> bool" where
  "untouched s s' =
     ((\<forall>h<next_handle (browser s).
         map_option pc_closed (peers (browser s') h) =
           map_option pc_closed (peers (browser s) h) \<and>
         channels (browser s') h = channels (browser s) h \<and>
         streams (browser s') h = streams (browser s) h \<and>
         audios (browser s') h = audios (browser s) h) \<and>
      (peerConnection (connectionRef s) = None \<or> peerConnection (connectionRef s') \<noteq> None) \<and>
      (dataChannel (connectionRef s) = None \<or> dataChannel (connectionRef s') \<noteq> None) \<and>
      (localStream (connectionRef s) = None \<or> localStream (connectionRef s') \<noteq> None) \<and>
      (audioElement (connectionRef s) = None \<or> audioElement (connectionRef s') \<noteq> None))"

subsection \<open>Interleaving: the hook as an event-driven system\<close>

text \<open>
  Between two suspension points of a \<^verbatim>\<open>connect\<close> call the event loop may run anything else.
  The system is the hook state together with the suspended \<^verbatim>\<open>connect\<close> calls; an action is
  a call of the control surface, the settling of the promise one suspended call waits for,
  or a data-channel event.
\<close>

datatype action =
    Call_connect
  | Settle nat env
  | Call_disconnect
  | Call_sendMessage string
  | Call_toggleMute
  | Call_clearConversation
  | Channel_open nat EphemeralTokenResponse
  | Channel_message "RealtimeServerEvent option"
  | Channel_error
  | Channel_close nat

fun act :: "action \<Rightarrow> hook \<times> pending list \<Rightarrow> hook \<times> pending list" where
  "act Call_connect (s, ps) =
     (case connect_begin s of
        Finished s' \<Rightarrow> (s', ps)
      | Suspended p s' \<Rightarrow> (s', ps @ [p]))"
| "act (Settle i ev) (s, ps) =
     (if i < length ps
      then (case resume ev (ps ! i) s of
              Finished s' \<Rightarrow> (s', take i ps @ drop (Suc i) ps)
            | Suspended p s' \<Rightarrow> (s', ps[i := p]))
      else (s, ps))"
| "act Call_disconnect (s, ps) = (disconnect s, ps)"
| "act (Call_sendMessage m) (s, ps) = (sendMessage m s, ps)"
| "act Call_toggleMute (s, ps) = (toggleMute s, ps)"
| "act Call_clearConversation (s, ps) = (clearConversation s, ps)"
| "act (Channel_open h tokenData) (s, ps) = (channel_opens h tokenData s, ps)"
| "act (Channel_message m) (s, ps) = (dc_onmessage m s, ps)"
| "act Channel_error (s, ps) = (dc_onerror s, ps)"
| "act (Channel_close h) (s, ps) = (channel_closes h s, ps)"





subsection \<open>Concrete sessions\<close>

text \<open>The scenario of a successful session: every callback registered, a token
  \<^verbatim>\<open>{value: "tok", session_config: {model: "m1"}}\<close>, one microphone track, a negotiation that
  succeeds, and the channel (handle 3, the fourth object created) opening.\<close>

definition all_callbacks :: callbacks where
  "all_callbacks =
     \<lparr>onError = True, onConnected = True, onDisconnected = True, onResponseReceived = True,
      onSpeechStarted = True, onSpeechStopped = True\<rparr>"

definition scenario_token :: EphemeralTokenResponse where
  "scenario_token =
     \<lparr>tok_value = Some ''tok'',
      tok_session_config = Some \<lparr>model = Some ''m1'', instructions = None\<rparr>,
      tok_error = None\<rparr>"

definition microphone :: "media_track list" where
  "microphone = [\<lparr>kind = AudioTrack, enabled = True, stopped = False\<rparr>]"

definition scenario_env :: env where
  "scenario_env =
     \<lparr>token_fetch = Resolved \<lparr>tr_ok = True, tr_json = Inr scenario_token\<rparr>,
      peer_ctor = None, user_media = Resolved microphone, dc_ctor = None,
      create_offer = Resolved ''offer'', set_local = Resolved (),
      ice_complete = True, gathered_sdp = Some ''offer+ice'',
      sdp_fetch = Resolved \<lparr>sr_ok = True, sr_status = 200, sr_text = Inr ''answer''\<rparr>,
      set_remote = Resolved ()\<rparr>"


definition assistant_text :: "string \<Rightarrow> ConversationItem" where
  "assistant_text t =
     \<lparr>item_id = None, item_type = Message, status = None, role = Some Assistant,
      content = Some [\<lparr>part_type = Text, part_text = Some t, audio = None,
                       transcript = None\<rparr>],
      name = None, call_id = None, arguments = None, item_output = None\<rparr>"


text \<open>Three failing environments: the signalling endpoint answers 500, the microphone is
  refused, and the token endpoint answers 200 with a body that has no \<^verbatim>\<open>value\<close>.\<close>

definition sdp_rejected_env :: env where
  "sdp_rejected_env =
     scenario_env\<lparr>sdp_fetch := Resolved \<lparr>sr_ok = False, sr_status = 500, sr_text = Inr ''boom''\<rparr>\<rparr>"

definition mic_denied_env :: env where
  "mic_denied_env = scenario_env\<lparr>user_media := Rejected (ErrorObj ''NotAllowedError'')\<rparr>"

definition no_secret_env :: env where
  "no_secret_env =
     scenario_env\<lparr>token_fetch := Resolved \<lparr>tr_ok = True,
       tr_json = Inr (scenario_token\<lparr>tok_value := None\<rparr>)\<rparr>\<rparr>"

definition token_refused_env :: env where
  "token_refused_env =
     scenario_env\<lparr>token_fetch := Resolved \<lparr>tr_ok = False,
       tr_json = Inr \<lparr>tok_value = None, tok_session_config = None,
                     tok_error = Some ''OpenAI API key not configured''\<rparr>\<rparr>\<rparr>"

text \<open>The results of running \<^verbatim>\<open>connect\<close> from a freshly mounted hook against these
  environments.\<close>

definition connecting_session :: hook where
  "connecting_session = final (connect scenario_env (initial_hook all_callbacks))"

text \<open>The scenario's session torn down while its \<^verbatim>\<open>connect\<close> still waits for the answer of the
  signalling endpoint.\<close>

definition torn_down_session :: hook where
  "torn_down_session = disconnect connecting_session"

text \<open>In the torn-down session the answer 500 arrives, or the microphone is refused.\<close>

definition late_failure :: hook where
  "late_failure = final (resume sdp_rejected_env (AwaitSdp 0) torn_down_session)"

definition late_refusal :: hook where
  "late_refusal = media_refused torn_down_session"

definition sdp_rejected_result :: hook where
  "sdp_rejected_result = final (connect sdp_rejected_env (initial_hook all_callbacks))"

definition mic_denied_result :: hook where
  "mic_denied_result = final (connect mic_denied_env (initial_hook all_callbacks))"

definition no_secret_result :: hook where
  "no_secret_result = final (connect no_secret_env (initial_hook all_callbacks))"

definition token_refused_result :: hook where
  "token_refused_result = final (connect token_refused_env (initial_hook all_callbacks))"

definition three_items :: "ConversationItem list" where
  "three_items = [user_message ''one'', assistant_text ''two'', user_message ''three'']"



section \<open>Properties\<close>

lemmas step_defs = after_token_def after_user_media_def after_offer_def after_set_local_def
  after_ice_def after_sdp_def after_set_remote_def

lemmas block_defs = request_token_def build_peer_def media_granted_def media_refused_def
  open_data_channel_def post_offer_def

lemmas browser_defs = new_RTCPeerConnection_def createElement_audio_def new_MediaStream_def
  createDataChannel_def update_peer_def update_audio_def fetch_def signaling_open_def
  local_sdp_def

lemmas run_defs = connect_def connect_begin_def connect_catch_def getEphemeralToken_def
  step_defs block_defs browser_defs setState_def notify_def template_def or_else_def
  error_message_def Let_def

lemmas scenario_defs = scenario_env_def scenario_token_def microphone_def initial_hook_def
  all_callbacks_def initial_state_def baseline_def empty_browser_def

lemma final_simps [simp]: "final (Finished s) = s" "final (Suspended p s) = s"
  by (simp_all add: final_def)

lemma initial_hook_idle:
  "\<not> connecting (connectionRef (initial_hook cbs))"
  "\<not> connected (connectionRef (initial_hook cbs))"
  by (simp_all add: initial_hook_def baseline_def)

subsection \<open>Sending on a channel that is not open\<close>

text \<open>
  Claim C5. Whatever the outbound event, \<^verbatim>\<open>sendClientEvent\<close> called while the ref holds no
  data channel, or a data channel whose ready state is not open, returns the state it was
  given: nothing is thrown, nothing is sent, and nothing is kept for later, since the whole
  state (the channel's list of sent events included) is the one before the call.
\<close>

theorem sendClientEvent_closed_noop:
  "dataChannel (connectionRef s) = None \<or>
   (\<exists>h dc. dataChannel (connectionRef s) = Some h \<and> channels (browser s) h = Some dc \<and>
      readyState dc \<noteq> Open)
   \<Longrightarrow> sendClientEvent event s = s"
  by (auto simp: sendClientEvent_def)

lemma connecting_session_channel:
  "dataChannel (connectionRef connecting_session) = Some 3 \<and>
   channels (browser connecting_session) 3 =
     Some \<lparr>dc_label = ''oai-events'', readyState = Connecting, sent = []\<rparr>"
  by (simp add: connecting_session_def scenario_defs run_defs)

theorem sendClientEvent_closed_noop_witness:
  "dataChannel (connectionRef connecting_session) = Some 3 \<and>
   channels (browser connecting_session) 3 =
     Some \<lparr>dc_label = ''oai-events'', readyState = Connecting, sent = []\<rparr> \<and>
   sendClientEvent ResponseCreate connecting_session = connecting_session"
proof -
  have "\<exists>h dc. dataChannel (connectionRef connecting_session) = Some h \<and>
      channels (browser connecting_session) h = Some dc \<and> readyState dc \<noteq> Open"
    using connecting_session_channel by simp
  then have "sendClientEvent ResponseCreate connecting_session = connecting_session"
    by (intro sendClientEvent_closed_noop disjI2)
  with connecting_session_channel show ?thesis by simp
qed

subsection \<open>Sending a message while not connected\<close>

text \<open>
  Claim C10. For every text, \<^verbatim>\<open>sendMessage\<close> called while the \<^verbatim>\<open>connected\<close> flag of the ref
  is false returns the state it was given: no \<^verbatim>\<open>conversation.item.create\<close> and no
  \<^verbatim>\<open>response.create\<close> is sent, nothing is thrown, and the Voice Interface State, its
  conversation history included, is unchanged.
\<close>

theorem sendMessage_disconnected_noop:
  "\<not> connected (connectionRef s) \<Longrightarrow> sendMessage message s = s"
  by (simp add: sendMessage_def)

theorem sendMessage_disconnected_noop_witness:
  "\<not> connected (connectionRef connecting_session) \<and>
   sendMessage ''Will I get the job?'' connecting_session = connecting_session"
proof -
  have h: "\<not> connected (connectionRef connecting_session)"
    by (simp add: connecting_session_def scenario_defs run_defs)
  from sendMessage_disconnected_noop [OF h] h show ?thesis by simp
qed

subsection \<open>Listening and speaking\<close>

text \<open>
  Claim C9. \<^verbatim>\<open>isListening\<close> and \<^verbatim>\<open>isSpeaking\<close> are independent: after
  \<^verbatim>\<open>response.created\<close> followed by \<^verbatim>\<open>input_audio_buffer.speech_started\<close> both are true,
  the handler of \<^verbatim>\<open>response.created\<close> and of \<^verbatim>\<open>response.done\<close> leaves \<^verbatim>\<open>isListening\<close> as it
  was, and the handler of \<^verbatim>\<open>speech_started\<close> and of \<^verbatim>\<open>speech_stopped\<close> leaves \<^verbatim>\<open>isSpeaking\<close>
  as it was.
\<close>

theorem listening_speaking_independent:
  "isSpeaking (state (handleServerEvents [ResponseCreated, SpeechStarted] s)) \<and>
   isListening (state (handleServerEvents [ResponseCreated, SpeechStarted] s)) \<and>
   isListening (state (handleServerEvent ResponseCreated s)) = isListening (state s) \<and>
   isListening (state (handleServerEvent (ResponseDone out) s)) = isListening (state s) \<and>
   isSpeaking (state (handleServerEvent SpeechStarted s)) = isSpeaking (state s) \<and>
   isSpeaking (state (handleServerEvent SpeechStopped s)) = isSpeaking (state s)"
  by (simp add: handleServerEvents_def setState_def notify_def Let_def split: option.splits)

subsection \<open>The end-to-end scenario\<close>






subsection \<open>What disconnect resets\<close>

lemma state_disconnect:
  "state (disconnect s) = (state s)\<lparr>isConnected := False, isConnecting := False,
     isListening := False, isSpeaking := False, error := None\<rparr>"
  by (simp add: disconnect_def Let_def setState_def notify_def)

lemma connectionRef_disconnect: "connectionRef (disconnect s) = baseline"
  by (simp add: disconnect_def Let_def setState_def notify_def)

lemma browser_disconnect_baseline:
  "connectionRef s = baseline \<Longrightarrow> browser (disconnect s) = browser s"
  by (simp add: disconnect_def Let_def setState_def notify_def on_handle_def baseline_def)

lemma history_events:
  "conversationHistory (state (handleServerEvents (map ConversationItemCreated items) s)) =
     conversationHistory (state s) @ items"
  unfolding handleServerEvents_def
  by (induction items arbitrary: s) (simp_all add: setState_def)

lemma history_connect_catch:
  "conversationHistory (state (connect_catch e s)) = conversationHistory (state s)"
  by (simp add: connect_catch_def Let_def setState_def notify_def)

lemma history_resume:
  "conversationHistory (state (final (resume ev p s))) = conversationHistory (state s)"
  by (cases p)
     (auto simp: step_defs block_defs browser_defs setState_def Let_def split_def
        history_connect_catch split: outcome.splits option.splits sum.splits)

lemma history_continue:
  "conversationHistory (state (final (continue ev r))) = conversationHistory (state (final r))"
  by (cases r) (simp_all add: history_resume)

lemma history_connect_begin:
  "conversationHistory (state (final (connect_begin s))) = conversationHistory (state s)"
  by (simp add: connect_begin_def request_token_def Let_def setState_def fetch_def)

lemma history_connect:
  "conversationHistory (state (final (connect ev s))) = conversationHistory (state s)"
  by (simp add: connect_def history_continue history_connect_begin)

lemma history_sendClientEvent:
  "state (sendClientEvent ev s) = state s"
  by (simp add: sendClientEvent_def split: option.splits)

lemma history_sendMessage:
  "prefix (conversationHistory (state s)) (conversationHistory (state (sendMessage m s)))"
  by (simp add: sendMessage_def Let_def setState_def history_sendClientEvent)

lemma history_handleServerEvent:
  "prefix (conversationHistory (state s)) (conversationHistory (state (handleServerEvent ev s)))"
  by (cases ev) (simp_all add: setState_def notify_def Let_def split: option.splits)

lemma history_toggleMute:
  "conversationHistory (state (toggleMute s)) = conversationHistory (state s)"
  by (simp add: toggleMute_def Let_def split: option.splits)

lemma history_channel:
  "conversationHistory (state (channel_opens h td s)) = conversationHistory (state s)"
  "conversationHistory (state (dc_onerror s)) = conversationHistory (state s)"
  "conversationHistory (state (channel_closes h s)) = conversationHistory (state s)"
  by (simp_all add: channel_opens_def channel_closes_def dc_onopen_def dc_onerror_def
        dc_onclose_def Let_def
        setState_def notify_def history_sendClientEvent)

lemma history_act:
  assumes "a \<noteq> Call_clearConversation"
  shows "prefix (conversationHistory (state s))
           (conversationHistory (state (fst (act a (s, ps)))))"
proof (cases a)
  case Call_connect
  have "conversationHistory (state (fst (act Call_connect (s, ps)))) =
        conversationHistory (state (final (connect_begin s)))"
    by (cases "connect_begin s") simp_all
  with Call_connect show ?thesis by (simp add: history_connect_begin)
next
  case (Settle i ev)
  have "conversationHistory (state (fst (act (Settle i ev) (s, ps)))) =
        conversationHistory (state s)"
  proof (cases "i < length ps")
    case True
    then have "conversationHistory (state (fst (act (Settle i ev) (s, ps)))) =
        conversationHistory (state (final (resume ev (ps ! i) s)))"
      by (cases "resume ev (ps ! i) s") simp_all
    then show ?thesis by (simp add: history_resume)
  next
    case False
    then show ?thesis by simp
  qed
  with Settle show ?thesis by simp
next
  case (Channel_message m)
  then show ?thesis
    by (cases m) (simp_all add: dc_onmessage_def history_handleServerEvent)
qed (use assms in \<open>simp_all add: state_disconnect history_sendMessage history_toggleMute
       history_channel\<close>)

text \<open>
  Claim C6. \<^verbatim>\<open>disconnect\<close> sets \<^verbatim>\<open>isConnected\<close>, \<^verbatim>\<open>isConnecting\<close>, \<^verbatim>\<open>isListening\<close> and
  \<^verbatim>\<open>isSpeaking\<close> to false and \<^verbatim>\<open>error\<close> to undefined, and changes no other field of the
  Voice Interface State; in particular \<^verbatim>\<open>conversationHistory\<close> and \<^verbatim>\<open>hasPermission\<close> are as
  before. After a \<^verbatim>\<open>connect\<close> (whatever the environment answers), any number of
  \<^verbatim>\<open>conversation.item.created\<close> events and a \<^verbatim>\<open>disconnect\<close>, the history is the old one
  followed by the items of these events. \<^verbatim>\<open>clearConversation\<close> empties it, and it is the only
  action of the hook that can shorten it: after any other action the old history is a
  prefix of the new one.
\<close>

theorem disconnect_keeps_history:
  "state (disconnect s) = (state s)\<lparr>isConnected := False, isConnecting := False,
     isListening := False, isSpeaking := False, error := None\<rparr> \<and>
   conversationHistory (state (disconnect s)) = conversationHistory (state s) \<and>
   hasPermission (state (disconnect s)) = hasPermission (state s) \<and>
   conversationHistory (state (disconnect
      (handleServerEvents (map ConversationItemCreated items) (final (connect ev s))))) =
     conversationHistory (state s) @ items \<and>
   conversationHistory (state (clearConversation s)) = [] \<and>
   (a \<noteq> Call_clearConversation \<longrightarrow>
      prefix (conversationHistory (state s))
        (conversationHistory (state (fst (act a (s, ps))))))"
  by (simp add: state_disconnect history_events history_connect history_act
        clearConversation_def setState_def)

theorem disconnect_keeps_history_witness:
  "Call_disconnect \<noteq> Call_clearConversation \<and>
   length (conversationHistory (state (disconnect
      (handleServerEvents (map ConversationItemCreated three_items)
         (final (connect scenario_env (initial_hook all_callbacks))))))) = 3 \<and>
   conversationHistory (state (clearConversation (initial_hook all_callbacks))) = [] \<and>
   prefix (conversationHistory (state (initial_hook all_callbacks)))
     (conversationHistory (state (fst (act Call_disconnect (initial_hook all_callbacks, [])))))"
  using disconnect_keeps_history [of "initial_hook all_callbacks" three_items scenario_env
      Call_disconnect "[]"]
  by (simp add: initial_hook_def initial_state_def three_items_def)

subsection \<open>Teardown is idempotent\<close>

text \<open>
  Claim C7. \<^verbatim>\<open>disconnect\<close>, the teardown of the hook, is a total function that leaves the
  all-null baseline in the ref. Called twice in a row it leaves the same Connection State,
  the same browser objects and the same Voice Interface State as called once: the second
  call does nothing but call the disconnected callback again. Called on a state whose ref
  already is the baseline it touches no browser object and leaves the baseline.
\<close>

lemma disconnect_on_baseline:
  "connectionRef x = baseline \<Longrightarrow>
   disconnect x =
     notify (onDisconnected (callbackRefs x)) NotifyDisconnected
       (x\<lparr>autoConnectAttemptedRef := False,
          state := (state x)\<lparr>isConnected := False, isConnecting := False,
            isListening := False, isSpeaking := False, error := None\<rparr>\<rparr>)"
  by (cases x) (simp add: disconnect_def Let_def setState_def on_handle_def baseline_def)

lemma disconnect_refs:
  "autoConnectAttemptedRef (disconnect s) = False"
  "callbackRefs (disconnect s) = callbackRefs s"
  by (simp_all add: disconnect_def Let_def setState_def notify_def)

lemma disconnect_twice:
  "disconnect (disconnect s) =
     notify (onDisconnected (callbackRefs s)) NotifyDisconnected (disconnect s)"
proof -
  let ?t = "disconnect s"
  have "?t\<lparr>autoConnectAttemptedRef := False,
          state := (state ?t)\<lparr>isConnected := False, isConnecting := False,
            isListening := False, isSpeaking := False, error := None\<rparr>\<rparr> =
        ?t\<lparr>autoConnectAttemptedRef := autoConnectAttemptedRef ?t, state := state ?t\<rparr>"
    by (simp only: disconnect_refs state_disconnect) simp
  also have "\<dots> = ?t" by simp
  finally show ?thesis
    by (simp only: disconnect_on_baseline [OF connectionRef_disconnect] disconnect_refs)
qed

theorem disconnect_idempotent:
  "connectionRef (disconnect s) = baseline \<and>
   connectionRef (disconnect (disconnect s)) = connectionRef (disconnect s) \<and>
   browser (disconnect (disconnect s)) = browser (disconnect s) \<and>
   state (disconnect (disconnect s)) = state (disconnect s) \<and>
   disconnect (disconnect s) =
     notify (onDisconnected (callbackRefs s)) NotifyDisconnected (disconnect s) \<and>
   browser (disconnect (s\<lparr>connectionRef := baseline\<rparr>)) = browser s \<and>
   connectionRef (disconnect (s\<lparr>connectionRef := baseline\<rparr>)) = baseline"
  by (simp add: disconnect_twice connectionRef_disconnect browser_disconnect_baseline
        state_disconnect notify_def)


subsection \<open>The catch block and the start of an attempt\<close>

lemma catch_facts:
  "connectionRef (connect_catch e s) = (connectionRef s)\<lparr>connecting := False, connected := False\<rparr>"
  "browser (connect_catch e s) = browser s"
  "state (connect_catch e s) =
     (state s)\<lparr>isConnecting := False, isConnected := False, error := Some (error_message e)\<rparr>"
  "notified (connect_catch e s) =
     notified s @ (if onError (callbackRefs s) then [NotifyError (error_message e)] else [])"
  "callbackRefs (connect_catch e s) = callbackRefs s"
  by (simp_all add: connect_catch_def setState_def notify_def Let_def)

lemma request_token_facts:
  "connectionRef (request_token s) = (connectionRef s)\<lparr>connecting := True\<rparr>"
  "browser (request_token s) = (browser s)\<lparr>network := network (browser s) @ [TokenRequest]\<rparr>"
  "state (request_token s) = (state s)\<lparr>isConnecting := True, error := None\<rparr>"
  "notified (request_token s) = notified s"
  "callbackRefs (request_token s) = callbackRefs s"
  by (simp_all add: request_token_def setState_def fetch_def Let_def)

lemma connect_unguarded:
  "\<not> connecting (connectionRef s) \<Longrightarrow> \<not> connected (connectionRef s) \<Longrightarrow>
   connect ev s = continue ev (continue ev (continue ev (continue ev (continue ev (continue ev
       (after_token ev (request_token s)))))))"
  by (simp add: connect_def connect_begin_def)

subsection \<open>Re-entrant connect\<close>
















subsection \<open>The resources of an attempt stay held\<close>

lemma has_live_peer_catch: "has_live_peer (connect_catch e x) = has_live_peer x"
  by (simp add: has_live_peer_def catch_facts split: option.splits)

lemma in_attempt_set_description:
  "in_attempt n s0 x \<Longrightarrow>
   in_attempt n s0
     (x\<lparr>browser := update_peer pc (\<lambda>p. p\<lparr>localDescription := d\<rparr>) (browser x)\<rparr>)"
  by (auto simp: in_attempt_def holds_peer_def has_live_peer_def update_peer_def
      split: option.splits)

lemma in_attempt_media_granted:
  "in_attempt n s0 x \<Longrightarrow> in_attempt n s0 (media_granted ts pc x)"
  by (auto simp: in_attempt_def holds_peer_def has_live_peer_def media_granted_def
      update_peer_def setState_def new_MediaStream_def Let_def split: option.splits)

lemma in_attempt_open_data_channel:
  "in_attempt n s0 x \<Longrightarrow> in_attempt n s0 (open_data_channel x)"
  by (auto simp: in_attempt_def holds_peer_def has_live_peer_def open_data_channel_def
      createDataChannel_def Let_def split: option.splits)

lemma in_attempt_post_offer:
  "in_attempt n s0 x \<Longrightarrow> in_attempt n s0 (post_offer ev td pc offer x)"
  by (auto simp: in_attempt_def holds_peer_def has_live_peer_def post_offer_def
      update_peer_def fetch_def Let_def split: option.splits)

lemma in_attempt_build_peer:
  "notified x = notified s0 \<Longrightarrow> callbackRefs x = callbackRefs s0 \<Longrightarrow>
   in_attempt (next_handle (browser x)) s0 (snd (snd (build_peer x)))"
  by (simp add: in_attempt_def holds_peer_def has_live_peer_def build_peer_def browser_defs
      Let_def)

subsection \<open>Every exception of an attempt arrives in the catch block\<close>

lemma caught_in_catch: "in_attempt n s0 x \<Longrightarrow> caught_in e n s0 (Finished (connect_catch e x))"
  by (auto simp: caught_in_def)

lemma caught_set_remote:
  "in_attempt n s0 x \<Longrightarrow> caught_after_set_remote ev = Some e \<Longrightarrow>
   caught_in e n s0 (after_set_remote ev pc a x)"
  by (auto simp: caught_after_set_remote_def after_set_remote_def caught_in_catch
      split: outcome.splits)

lemma caught_sdp:
  "in_attempt n s0 x \<Longrightarrow> caught_after_sdp ev = Some e \<Longrightarrow>
   caught_in e n s0 (continue ev (after_sdp ev pc x))"
  by (auto simp: caught_after_sdp_def after_sdp_def caught_set_remote caught_in_catch
      split: outcome.splits sum.splits if_splits)

lemma caught_ice:
  "in_attempt n s0 x \<Longrightarrow> caught_after_ice ev = Some e \<Longrightarrow>
   caught_in e n s0 (continue ev (continue ev (after_ice ev td pc offer x)))"
  by (auto simp: caught_after_ice_def after_ice_def in_attempt_post_offer caught_sdp
      split: if_splits)

lemma caught_set_local:
  "in_attempt n s0 x \<Longrightarrow> caught_after_set_local ev = Some e \<Longrightarrow>
   caught_in e n s0
     (continue ev (continue ev (continue ev (after_set_local ev td pc offer x))))"
  by (auto simp: caught_after_set_local_def after_set_local_def in_attempt_set_description
      caught_ice caught_in_catch split: outcome.splits)

lemma caught_offer:
  "in_attempt n s0 x \<Longrightarrow> caught_after_offer ev = Some e \<Longrightarrow>
   caught_in e n s0
     (continue ev (continue ev (continue ev (continue ev (after_offer ev td pc x)))))"
  by (auto simp: caught_after_offer_def after_offer_def caught_set_local caught_in_catch
      split: outcome.splits)

lemma caught_user_media:
  "in_attempt n s0 x \<Longrightarrow> caught_after_user_media ev = Some e \<Longrightarrow>
   caught_in e n s0
     (continue ev (continue ev (continue ev (continue ev (continue ev
       (after_user_media ev td pc audioEl x))))))"
  by (auto simp: caught_after_user_media_def after_user_media_def Let_def
      in_attempt_media_granted in_attempt_open_data_channel caught_offer caught_in_catch
      split: outcome.splits option.splits)

lemma caught_token_late:
  assumes "notified x = notified s0" and "callbackRefs x = callbackRefs s0"
    and "getEphemeralToken (token_fetch ev) = Resolved td" and "peer_ctor ev = None"
    and "caught_after_user_media ev = Some e"
  shows "caught_in e (next_handle (browser x)) s0
     (continue ev (continue ev (continue ev (continue ev (continue ev (continue ev
       (after_token ev x)))))))"
proof -
  have "in_attempt (next_handle (browser x)) s0 (snd (snd (build_peer x)))"
    using assms(1,2) by (rule in_attempt_build_peer)
  then show ?thesis
    using assms(3-5) by (simp add: after_token_def split_def Let_def caught_user_media)
qed

lemma caught_token_early:
  assumes "getEphemeralToken (token_fetch ev) = Rejected e \<or>
           (getEphemeralToken (token_fetch ev) = Resolved td \<and> peer_ctor ev = Some e)"
  shows "continue ev (continue ev (continue ev (continue ev (continue ev (continue ev
       (after_token ev x)))))) = Finished (connect_catch e x)"
  using assms by (auto simp: after_token_def)

lemma next_handle_request_token:
  "next_handle (browser (request_token s)) = next_handle (browser s)"
  by (simp add: request_token_facts)

lemma connect_caught_facts:
  assumes "\<not> connecting (connectionRef s)" and "\<not> connected (connectionRef s)"
    and "caught ev = Some e"
  shows "connect ev s = Finished (final (connect ev s)) \<and>
         \<not> connecting (connectionRef (final (connect ev s))) \<and>
         \<not> connected (connectionRef (final (connect ev s))) \<and>
         \<not> isConnecting (state (final (connect ev s))) \<and>
         \<not> isConnected (state (final (connect ev s))) \<and>
         error (state (final (connect ev s))) = Some (error_message e) \<and>
         notified (final (connect ev s)) = notified s @
           (if onError (callbackRefs s) then [NotifyError (error_message e)] else []) \<and>
         (if peer_built ev
          then has_live_peer (final (connect ev s)) \<and>
               peerConnection (connectionRef (final (connect ev s))) =
                 Some (next_handle (browser s)) \<and>
               audioElement (connectionRef (final (connect ev s))) =
                 Some (Suc (next_handle (browser s)))
          else connectionRef (final (connect ev s)) =
                 (connectionRef s)\<lparr>connecting := False, connected := False\<rparr> \<and>
               browser (final (connect ev s)) =
                 (browser s)\<lparr>network := network (browser s) @ [TokenRequest]\<rparr>)"
proof (cases "peer_built ev")
  case True
  then obtain td where td: "getEphemeralToken (token_fetch ev) = Resolved td"
    and pc: "peer_ctor ev = None"
    by (auto simp: peer_built_def split: outcome.splits)
  with assms(3) have "caught_after_user_media ev = Some e"
    by (simp add: caught_def)
  with td pc have "caught_in e (next_handle (browser (request_token s))) s
     (continue ev (continue ev (continue ev (continue ev (continue ev (continue ev
       (after_token ev (request_token s))))))))"
    by (intro caught_token_late) (simp_all add: request_token_facts)
  then have "caught_in e (next_handle (browser s)) s (connect ev s)"
    by (simp only: connect_unguarded [OF assms(1,2)] next_handle_request_token)
  then obtain x where x: "connect ev s = Finished (connect_catch e x)"
    and inv: "in_attempt (next_handle (browser s)) s x"
    unfolding caught_in_def by blast
  from inv have "has_live_peer (connect_catch e x)"
    by (simp add: has_live_peer_catch in_attempt_def holds_peer_def)
  with x inv True show ?thesis
    by (simp add: catch_facts in_attempt_def holds_peer_def)
next
  case False
  with assms(3) have "getEphemeralToken (token_fetch ev) = Rejected e \<or>
      (\<exists>td. getEphemeralToken (token_fetch ev) = Resolved td \<and> peer_ctor ev = Some e)"
    by (auto simp: caught_def peer_built_def split: outcome.splits option.splits)
  then have "connect ev s = Finished (connect_catch e (request_token s))"
    using assms(1,2) by (auto simp: connect_unguarded caught_token_early)
  with False show ?thesis
    by (simp add: catch_facts request_token_facts)
qed

subsection \<open>A refused microphone\<close>

lemma connect_mic_refused:
  assumes "\<not> connecting (connectionRef s)" and "\<not> connected (connectionRef s)"
    and "getEphemeralToken (token_fetch ev) = Resolved tokenData"
    and "peer_ctor ev = None" and "user_media ev = Rejected err"
  shows "connect ev s = Finished (media_refused (snd (snd (build_peer (request_token s)))))"
  using assms
  by (simp add: connect_unguarded after_token_def after_user_media_def split_def Let_def)

lemma build_peer_facts:
  "connectionRef (snd (snd (build_peer x))) =
     (connectionRef x)\<lparr>peerConnection := Some (next_handle (browser x)),
        audioElement := Some (Suc (next_handle (browser x)))\<rparr>"
  "state (snd (snd (build_peer x))) = state x"
  "network (browser (snd (snd (build_peer x)))) = network (browser x)"
  "channels (browser (snd (snd (build_peer x)))) = channels (browser x)"
  "streams (browser (snd (snd (build_peer x)))) = streams (browser x)"
  "notified (snd (snd (build_peer x))) = notified x"
  by (simp_all add: build_peer_def browser_defs Let_def)

lemma media_refused_facts:
  "connectionRef (media_refused x) = connectionRef x"
  "browser (media_refused x) = browser x"
  "notified (media_refused x) = notified x"
  "state (media_refused x) = (state x)\<lparr>error :=
     Some ''Microphone permission denied or not available'', hasPermission := False\<rparr>"
  by (simp_all add: media_refused_def setState_def)

lemma has_live_peer_media_refused: "has_live_peer (media_refused x) = has_live_peer x"
  by (simp add: has_live_peer_def media_refused_facts split: option.splits)

lemma connect_mic_refused_facts:
  assumes "\<not> connecting (connectionRef s)" and "\<not> connected (connectionRef s)"
    and "getEphemeralToken (token_fetch ev) = Resolved tokenData"
    and "peer_ctor ev = None" and "user_media ev = Rejected err"
  shows "connect ev s = Finished (final (connect ev s)) \<and>
         network (browser (final (connect ev s))) = network (browser s) @ [TokenRequest] \<and>
         channels (browser (final (connect ev s))) = channels (browser s) \<and>
         streams (browser (final (connect ev s))) = streams (browser s) \<and>
         dataChannel (connectionRef (final (connect ev s))) = dataChannel (connectionRef s) \<and>
         localStream (connectionRef (final (connect ev s))) = localStream (connectionRef s) \<and>
         \<not> hasPermission (state (final (connect ev s))) \<and>
         isConnected (state (final (connect ev s))) = isConnected (state s) \<and>
         \<not> connected (connectionRef (final (connect ev s))) \<and>
         error (state (final (connect ev s))) =
           Some ''Microphone permission denied or not available'' \<and>
         has_live_peer (final (connect ev s)) \<and>
         peerConnection (connectionRef (final (connect ev s))) = Some (next_handle (browser s)) \<and>
         audioElement (connectionRef (final (connect ev s))) =
           Some (Suc (next_handle (browser s)))"
proof -
  have "in_attempt (next_handle (browser (request_token s))) s
          (snd (snd (build_peer (request_token s))))"
    by (intro in_attempt_build_peer) (simp_all add: request_token_facts)
  then have "has_live_peer (snd (snd (build_peer (request_token s))))"
    by (simp add: in_attempt_def holds_peer_def)
  with assms(2) show ?thesis
    by (simp add: connect_mic_refused [OF assms] media_refused_facts
        has_live_peer_media_refused build_peer_facts request_token_facts)
qed


subsection \<open>One step of connect\<close>

lemma media_granted_refs:
  "notified (media_granted ts pc x) = notified x"
  "callbackRefs (media_granted ts pc x) = callbackRefs x"
  by (simp_all add: media_granted_def setState_def Let_def split_def split: option.splits)

lemma resume_thrown:
  "thrown_at ev p = Some e \<Longrightarrow>
   \<exists>y. resume ev p x = Finished (connect_catch e y) \<and> notified y = notified x \<and>
       callbackRefs y = callbackRefs x"
  by (cases p)
     (auto simp: step_defs media_granted_refs Let_def
        split: outcome.splits option.splits sum.splits if_splits)

lemma resume_thrown_facts:
  assumes "thrown_at ev p = Some e"
  shows "resume ev p x = Finished (final (resume ev p x)) \<and>
         \<not> connecting (connectionRef (final (resume ev p x))) \<and>
         \<not> connected (connectionRef (final (resume ev p x))) \<and>
         \<not> isConnecting (state (final (resume ev p x))) \<and>
         \<not> isConnected (state (final (resume ev p x))) \<and>
         error (state (final (resume ev p x))) = Some (error_message e) \<and>
         notified (final (resume ev p x)) = notified x @
           (if onError (callbackRefs x) then [NotifyError (error_message e)] else [])"
proof -
  from resume_thrown [OF assms, of x] obtain y
    where "resume ev p x = Finished (connect_catch e y)" "notified y = notified x"
      "callbackRefs y = callbackRefs x"
    by blast
  then show ?thesis by (simp add: catch_facts)
qed

lemma untouched_resume: "untouched x (final (resume ev p x))"
  by (cases p)
     (auto simp: untouched_def step_defs block_defs browser_defs catch_facts setState_def
        Let_def split_def
        split: outcome.splits option.splits sum.splits if_splits)

lemma untouched_connect_begin: "untouched x (final (connect_begin x))"
  by (auto simp: untouched_def connect_begin_def request_token_facts)

lemma resume_mic_refused_facts:
  assumes "user_media ev = Rejected err"
  shows "resume ev (AwaitUserMedia tokenData pc audioEl) x = Finished (media_refused x) \<and>
         browser (media_refused x) = browser x \<and>
         peerConnection (connectionRef (media_refused x)) = peerConnection (connectionRef x) \<and>
         dataChannel (connectionRef (media_refused x)) = dataChannel (connectionRef x) \<and>
         localStream (connectionRef (media_refused x)) = localStream (connectionRef x) \<and>
         audioElement (connectionRef (media_refused x)) = audioElement (connectionRef x) \<and>
         connected (connectionRef (media_refused x)) = connected (connectionRef x) \<and>
         isConnected (state (media_refused x)) = isConnected (state x) \<and>
         \<not> hasPermission (state (media_refused x)) \<and>
         error (state (media_refused x)) =
           Some ''Microphone permission denied or not available''"
  using assms by (simp add: after_user_media_def media_refused_facts)

subsection \<open>Failures of the connect path\<close>

text \<open>
  Claim C1, as the code has it. No failure of the connect path makes \<^verbatim>\<open>connect\<close> run the
  teardown, in whatever state the hook is when the failing piece of \<^verbatim>\<open>connect\<close> runs. The
  piece in which an exception reaches the catch block (a failed token request, a throwing
  constructor, a rejected offer or description, a failed or refused SDP exchange) ends the
  call without throwing, with \<^verbatim>\<open>connecting\<close> and \<^verbatim>\<open>connected\<close>, \<^verbatim>\<open>isConnecting\<close> and \<^verbatim>\<open>isConnected\<close>
  false, \<^verbatim>\<open>error\<close> set to the message, and the error callback called once. No piece of
  \<^verbatim>\<open>connect\<close>, failing or not, and not its start either, closes a peer connection or a
  channel, stops a track, detaches the source of an audio element or clears a handle of
  Connection State. A refused microphone ends the call in the inner \<^verbatim>\<open>catch\<close> with the handles
  of Connection State and the browser as they were.

  When nothing else runs between the suspension points of the call: after an exception that
  reached the catch block, if the peer connection had been built, Connection State still
  refers to it and to the audio element, and the peer connection is not closed; if the
  failure came before, Connection State is the one before the call but for the two flags, and
  the only trace in the browser is the token request. After a refused microphone the peer
  connection is likewise still in Connection State and not closed.
\<close>

theorem connect_failure_keeps_resources:
  "(thrown_at ev p = Some e \<longrightarrow>
      resume ev p x = Finished (final (resume ev p x)) \<and>
      \<not> connecting (connectionRef (final (resume ev p x))) \<and>
      \<not> connected (connectionRef (final (resume ev p x))) \<and>
      \<not> isConnecting (state (final (resume ev p x))) \<and>
      \<not> isConnected (state (final (resume ev p x))) \<and>
      error (state (final (resume ev p x))) = Some (error_message e) \<and>
      notified (final (resume ev p x)) = notified x @
        (if onError (callbackRefs x) then [NotifyError (error_message e)] else [])) \<and>
   untouched x (final (resume ev p x)) \<and>
   untouched x (final (connect_begin x)) \<and>
   (user_media ev = Rejected err \<longrightarrow>
      resume ev (AwaitUserMedia tokenData pc audioEl) x = Finished (media_refused x) \<and>
      browser (media_refused x) = browser x \<and>
      peerConnection (connectionRef (media_refused x)) = peerConnection (connectionRef x) \<and>
      dataChannel (connectionRef (media_refused x)) = dataChannel (connectionRef x) \<and>
      localStream (connectionRef (media_refused x)) = localStream (connectionRef x) \<and>
      audioElement (connectionRef (media_refused x)) = audioElement (connectionRef x)) \<and>
   (\<not> connecting (connectionRef s) \<and> \<not> connected (connectionRef s) \<and> caught ev = Some e \<longrightarrow>
      connect ev s = Finished (final (connect ev s)) \<and>
      \<not> connecting (connectionRef (final (connect ev s))) \<and>
      \<not> connected (connectionRef (final (connect ev s))) \<and>
      \<not> isConnecting (state (final (connect ev s))) \<and>
      \<not> isConnected (state (final (connect ev s))) \<and>
      error (state (final (connect ev s))) = Some (error_message e) \<and>
      notified (final (connect ev s)) = notified s @
        (if onError (callbackRefs s) then [NotifyError (error_message e)] else []) \<and>
      (if peer_built ev
       then has_live_peer (final (connect ev s)) \<and>
            peerConnection (connectionRef (final (connect ev s))) =
              Some (next_handle (browser s)) \<and>
            audioElement (connectionRef (final (connect ev s))) =
              Some (Suc (next_handle (browser s)))
       else connectionRef (final (connect ev s)) =
              (connectionRef s)\<lparr>connecting := False, connected := False\<rparr> \<and>
            browser (final (connect ev s)) =
              (browser s)\<lparr>network := network (browser s) @ [TokenRequest]\<rparr>)) \<and>
   (\<not> connecting (connectionRef s) \<and> \<not> connected (connectionRef s) \<and>
    getEphemeralToken (token_fetch ev) = Resolved tokenData \<and> peer_ctor ev = None \<and>
    user_media ev = Rejected err \<longrightarrow>
      connect ev s = Finished (final (connect ev s)) \<and>
      has_live_peer (final (connect ev s)) \<and>
      peerConnection (connectionRef (final (connect ev s))) =
        Some (next_handle (browser s)) \<and>
      audioElement (connectionRef (final (connect ev s))) =
        Some (Suc (next_handle (browser s))))"
    (is "(_ \<longrightarrow> ?step) \<and> ?kept \<and> ?start \<and> (_ \<longrightarrow> ?refused) \<and> (_ \<longrightarrow> ?catch) \<and> (_ \<longrightarrow> ?mic)")
proof -
  have a: "thrown_at ev p = Some e \<Longrightarrow> ?step"
    by (rule resume_thrown_facts)
  have b: ?kept by (rule untouched_resume)
  have c: ?start by (rule untouched_connect_begin)
  have d: ?refused if "user_media ev = Rejected err"
    using resume_mic_refused_facts [OF that, of tokenData pc audioEl x] by simp
  have f: ?catch
    if "\<not> connecting (connectionRef s) \<and> \<not> connected (connectionRef s) \<and> caught ev = Some e"
    using that by (intro connect_caught_facts) simp_all
  have g: ?mic
    if h: "\<not> connecting (connectionRef s) \<and> \<not> connected (connectionRef s) \<and>
      getEphemeralToken (token_fetch ev) = Resolved tokenData \<and> peer_ctor ev = None \<and>
      user_media ev = Rejected err"
  proof -
    from h have "connect ev s = Finished (final (connect ev s)) \<and>
         network (browser (final (connect ev s))) = network (browser s) @ [TokenRequest] \<and>
         channels (browser (final (connect ev s))) = channels (browser s) \<and>
         streams (browser (final (connect ev s))) = streams (browser s) \<and>
         dataChannel (connectionRef (final (connect ev s))) = dataChannel (connectionRef s) \<and>
         localStream (connectionRef (final (connect ev s))) = localStream (connectionRef s) \<and>
         \<not> hasPermission (state (final (connect ev s))) \<and>
         isConnected (state (final (connect ev s))) = isConnected (state s) \<and>
         \<not> connected (connectionRef (final (connect ev s))) \<and>
         error (state (final (connect ev s))) =
           Some ''Microphone permission denied or not available'' \<and>
         has_live_peer (final (connect ev s)) \<and>
         peerConnection (connectionRef (final (connect ev s))) = Some (next_handle (browser s)) \<and>
         audioElement (connectionRef (final (connect ev s))) =
           Some (Suc (next_handle (browser s)))"
      by (intro connect_mic_refused_facts) simp_all
    then show ?thesis by simp
  qed
  from a b c d f g show ?thesis by blast
qed

lemma string_of_500: "string_of_nat 500 = ''500''"
  by (simp add: string_of_nat.simps digit_char_def)

lemma sdp_rejected_caught:
  "caught sdp_rejected_env = Some (ErrorObj ''Failed to connect to OpenAI: 500 - boom'')"
  by (simp add: caught_def caught_after_user_media_def caught_after_offer_def
      caught_after_set_local_def caught_after_ice_def caught_after_sdp_def sdp_failure_def
      sdp_rejected_env_def scenario_env_def getEphemeralToken_def string_of_500)

lemma sdp_rejected_thrown:
  "thrown_at sdp_rejected_env (AwaitSdp 0) =
     Some (ErrorObj ''Failed to connect to OpenAI: 500 - boom'')"
  by (simp add: sdp_failure_def sdp_rejected_env_def scenario_env_def string_of_500)

lemma sdp_rejected_peer_built: "peer_built sdp_rejected_env"
  by (simp add: peer_built_def sdp_rejected_env_def scenario_env_def getEphemeralToken_def)

lemma mic_denied_token:
  "getEphemeralToken (token_fetch mic_denied_env) = Resolved scenario_token"
  by (simp add: mic_denied_env_def scenario_env_def getEphemeralToken_def)

lemma mic_denied_outcomes:
  "peer_ctor mic_denied_env = None"
  "user_media mic_denied_env = Rejected (ErrorObj ''NotAllowedError'')"
  by (simp_all add: mic_denied_env_def scenario_env_def)

lemma torn_down_session_refs:
  "connectionRef torn_down_session = baseline"
  "callbackRefs torn_down_session = all_callbacks"
  "notified torn_down_session = [NotifyDisconnected]"
  by (simp_all add: torn_down_session_def connectionRef_disconnect disconnect_refs
      connecting_session_def disconnect_def notify_def scenario_defs run_defs)

theorem connect_failure_keeps_resources_witness:
  "thrown_at sdp_rejected_env (AwaitSdp 0) =
     Some (ErrorObj ''Failed to connect to OpenAI: 500 - boom'') \<and>
   resume sdp_rejected_env (AwaitSdp 0) torn_down_session = Finished late_failure \<and>
   \<not> connecting (connectionRef late_failure) \<and>
   \<not> isConnecting (state late_failure) \<and>
   error (state late_failure) = Some ''Failed to connect to OpenAI: 500 - boom'' \<and>
   notified late_failure =
     [NotifyDisconnected, NotifyError ''Failed to connect to OpenAI: 500 - boom''] \<and>
   untouched torn_down_session late_failure \<and>
   untouched torn_down_session (final (connect_begin torn_down_session)) \<and>
   user_media mic_denied_env = Rejected (ErrorObj ''NotAllowedError'') \<and>
   resume mic_denied_env (AwaitUserMedia scenario_token 0 1) torn_down_session =
     Finished late_refusal \<and>
   browser late_refusal = browser torn_down_session \<and>
   peerConnection (connectionRef late_refusal) = None \<and>
   \<not> connecting (connectionRef (initial_hook all_callbacks)) \<and>
   \<not> connected (connectionRef (initial_hook all_callbacks)) \<and>
   caught sdp_rejected_env = Some (ErrorObj ''Failed to connect to OpenAI: 500 - boom'') \<and>
   connect sdp_rejected_env (initial_hook all_callbacks) = Finished sdp_rejected_result \<and>
   \<not> connecting (connectionRef sdp_rejected_result) \<and>
   \<not> isConnecting (state sdp_rejected_result) \<and>
   error (state sdp_rejected_result) = Some ''Failed to connect to OpenAI: 500 - boom'' \<and>
   notified sdp_rejected_result = [NotifyError ''Failed to connect to OpenAI: 500 - boom''] \<and>
   has_live_peer sdp_rejected_result \<and>
   peerConnection (connectionRef sdp_rejected_result) = Some 0 \<and>
   getEphemeralToken (token_fetch mic_denied_env) = Resolved scenario_token \<and>
   peer_ctor mic_denied_env = None \<and>
   connect mic_denied_env (initial_hook all_callbacks) = Finished mic_denied_result \<and>
   has_live_peer mic_denied_result \<and>
   peerConnection (connectionRef mic_denied_result) = Some 0"
proof -
  note a = connect_failure_keeps_resources [where ev = sdp_rejected_env
      and p = "AwaitSdp 0" and x = torn_down_session and s = "initial_hook all_callbacks"
      and e = "ErrorObj ''Failed to connect to OpenAI: 500 - boom''"]
  note b = connect_failure_keeps_resources [where ev = mic_denied_env
      and x = torn_down_session and s = "initial_hook all_callbacks"
      and tokenData = scenario_token and pc = 0 and audioEl = 1
      and err = "ErrorObj ''NotAllowedError''"]
  from a sdp_rejected_thrown
  have "resume sdp_rejected_env (AwaitSdp 0) torn_down_session = Finished late_failure \<and>
   \<not> connecting (connectionRef late_failure) \<and>
   \<not> isConnecting (state late_failure) \<and>
   error (state late_failure) = Some ''Failed to connect to OpenAI: 500 - boom'' \<and>
   notified late_failure =
     [NotifyDisconnected, NotifyError ''Failed to connect to OpenAI: 500 - boom''] \<and>
   untouched torn_down_session late_failure \<and>
   untouched torn_down_session (final (connect_begin torn_down_session))"
    by (simp add: late_failure_def error_message_def torn_down_session_refs all_callbacks_def)
  moreover from a sdp_rejected_caught sdp_rejected_peer_built initial_hook_idle [of all_callbacks]
  have "connect sdp_rejected_env (initial_hook all_callbacks) = Finished sdp_rejected_result \<and>
   \<not> connecting (connectionRef sdp_rejected_result) \<and>
   \<not> isConnecting (state sdp_rejected_result) \<and>
   error (state sdp_rejected_result) = Some ''Failed to connect to OpenAI: 500 - boom'' \<and>
   notified sdp_rejected_result = [NotifyError ''Failed to connect to OpenAI: 500 - boom''] \<and>
   has_live_peer sdp_rejected_result \<and>
   peerConnection (connectionRef sdp_rejected_result) = Some 0"
    by (simp add: sdp_rejected_result_def error_message_def initial_hook_def all_callbacks_def
        empty_browser_def)
  moreover from b mic_denied_outcomes
  have "resume mic_denied_env (AwaitUserMedia scenario_token 0 1) torn_down_session =
     Finished late_refusal \<and>
   browser late_refusal = browser torn_down_session \<and>
   peerConnection (connectionRef late_refusal) = None"
    by (simp add: late_refusal_def torn_down_session_refs baseline_def)
  moreover from b mic_denied_token mic_denied_outcomes initial_hook_idle [of all_callbacks]
  have "connect mic_denied_env (initial_hook all_callbacks) = Finished mic_denied_result \<and>
   has_live_peer mic_denied_result \<and>
   peerConnection (connectionRef mic_denied_result) = Some 0"
    by (simp add: mic_denied_result_def initial_hook_def empty_browser_def)
  ultimately show ?thesis
    using initial_hook_idle [of all_callbacks] sdp_rejected_caught sdp_rejected_thrown
      mic_denied_token mic_denied_outcomes
    by simp
qed

lemma sdp_rejected_objects:
  "connectionRef sdp_rejected_result =
     \<lparr>connected = False, connecting = False, conn_error = None, peerConnection = Some 0,
      dataChannel = Some 3, audioElement = Some 1, localStream = Some 2\<rparr>"
  "peers (browser sdp_rejected_result) 0 =
     Some \<lparr>pc_closed = False, transceivers = 1, senders = [(2, 0)],
           localDescription = Some ''offer+ice'', remoteDescription = None\<rparr>"
  "channels (browser sdp_rejected_result) 3 =
     Some \<lparr>dc_label = ''oai-events'', readyState = Connecting, sent = []\<rparr>"
  "streams (browser sdp_rejected_result) 2 =
     Some [\<lparr>kind = AudioTrack, enabled = True, stopped = False\<rparr>]"
  by (simp_all add: sdp_rejected_result_def sdp_rejected_env_def scenario_defs run_defs
      after_sdp_def sdp_failure_def string_of_500)

text \<open>
  Claim C1 fails as stated: when the signalling endpoint answers 500, \<^verbatim>\<open>connect\<close> returns
  with the ref still holding the four handles; the peer connection is not closed, the data
  channel is not closed, and the microphone track is not stopped.
\<close>

theorem sdp_failure_leaves_resources:
  "connect sdp_rejected_env (initial_hook all_callbacks) = Finished sdp_rejected_result \<and>
   connectionRef sdp_rejected_result \<noteq> baseline \<and>
   peerConnection (connectionRef sdp_rejected_result) = Some 0 \<and>
   peers (browser sdp_rejected_result) 0 =
     Some \<lparr>pc_closed = False, transceivers = 1, senders = [(2, 0)],
           localDescription = Some ''offer+ice'', remoteDescription = None\<rparr> \<and>
   dataChannel (connectionRef sdp_rejected_result) = Some 3 \<and>
   channels (browser sdp_rejected_result) 3 =
     Some \<lparr>dc_label = ''oai-events'', readyState = Connecting, sent = []\<rparr> \<and>
   localStream (connectionRef sdp_rejected_result) = Some 2 \<and>
   streams (browser sdp_rejected_result) 2 =
     Some [\<lparr>kind = AudioTrack, enabled = True, stopped = False\<rparr>]"
proof -
  have "connect sdp_rejected_env (initial_hook all_callbacks) = Finished sdp_rejected_result"
    by (simp add: sdp_rejected_result_def sdp_rejected_env_def scenario_defs run_defs
        after_sdp_def)
  then show ?thesis
    by (simp add: sdp_rejected_objects baseline_def)
qed

subsection \<open>A refused microphone aborts the attempt\<close>

text \<open>
  Claim C2, as the code has it. When the microphone request is rejected, \<^verbatim>\<open>connect\<close> returns
  at once from the inner \<^verbatim>\<open>catch\<close>, in whatever state the hook is then: \<^verbatim>\<open>hasPermission\<close> is
  false, \<^verbatim>\<open>error\<close> is the microphone message, \<^verbatim>\<open>isConnected\<close> and \<^verbatim>\<open>connected\<close> stay false
  if they were, and the handles of Connection State and the whole browser are as they
  were: no request is posted to the signalling endpoint, no data channel is created, and
  nothing is released.

  When nothing else runs between the suspension points of the call, the token request is
  the only request made, no stream and no data channel is stored or created, \<^verbatim>\<open>connected\<close>
  is false and \<^verbatim>\<open>isConnected\<close> stays false, and the peer connection and the audio element
  built before the microphone was asked for stay in Connection State, the peer connection
  not closed.
\<close>

theorem mic_failure_aborts:
  "(user_media ev = Rejected err \<longrightarrow>
      resume ev (AwaitUserMedia tokenData pc audioEl) x = Finished (media_refused x) \<and>
      browser (media_refused x) = browser x \<and>
      peerConnection (connectionRef (media_refused x)) = peerConnection (connectionRef x) \<and>
      dataChannel (connectionRef (media_refused x)) = dataChannel (connectionRef x) \<and>
      localStream (connectionRef (media_refused x)) = localStream (connectionRef x) \<and>
      audioElement (connectionRef (media_refused x)) = audioElement (connectionRef x) \<and>
      (connected (connectionRef x) \<or> \<not> connected (connectionRef (media_refused x))) \<and>
      (isConnected (state x) \<or> \<not> isConnected (state (media_refused x))) \<and>
      \<not> hasPermission (state (media_refused x)) \<and>
      error (state (media_refused x)) =
        Some ''Microphone permission denied or not available'') \<and>
   (\<not> connecting (connectionRef s) \<and> \<not> connected (connectionRef s) \<and>
    getEphemeralToken (token_fetch ev) = Resolved tokenData \<and> peer_ctor ev = None \<and>
    user_media ev = Rejected err \<longrightarrow>
      connect ev s = Finished (final (connect ev s)) \<and>
      network (browser (final (connect ev s))) = network (browser s) @ [TokenRequest] \<and>
      channels (browser (final (connect ev s))) = channels (browser s) \<and>
      streams (browser (final (connect ev s))) = streams (browser s) \<and>
      dataChannel (connectionRef (final (connect ev s))) = dataChannel (connectionRef s) \<and>
      localStream (connectionRef (final (connect ev s))) = localStream (connectionRef s) \<and>
      \<not> hasPermission (state (final (connect ev s))) \<and>
      (isConnected (state s) \<or> \<not> isConnected (state (final (connect ev s)))) \<and>
      \<not> connected (connectionRef (final (connect ev s))) \<and>
      error (state (final (connect ev s))) =
        Some ''Microphone permission denied or not available'' \<and>
      has_live_peer (final (connect ev s)) \<and>
      peerConnection (connectionRef (final (connect ev s))) = Some (next_handle (browser s)) \<and>
      audioElement (connectionRef (final (connect ev s))) =
        Some (Suc (next_handle (browser s))))"
    (is "(_ \<longrightarrow> ?step) \<and> (_ \<longrightarrow> ?run)")
proof (rule conjI; rule impI)
  assume "user_media ev = Rejected err"
  from resume_mic_refused_facts [OF this, of tokenData pc audioEl x] show ?step by simp
next
  assume h: "\<not> connecting (connectionRef s) \<and> \<not> connected (connectionRef s) \<and>
    getEphemeralToken (token_fetch ev) = Resolved tokenData \<and> peer_ctor ev = None \<and>
    user_media ev = Rejected err"
  have "connect ev s = Finished (final (connect ev s)) \<and>
         network (browser (final (connect ev s))) = network (browser s) @ [TokenRequest] \<and>
         channels (browser (final (connect ev s))) = channels (browser s) \<and>
         streams (browser (final (connect ev s))) = streams (browser s) \<and>
         dataChannel (connectionRef (final (connect ev s))) = dataChannel (connectionRef s) \<and>
         localStream (connectionRef (final (connect ev s))) = localStream (connectionRef s) \<and>
         \<not> hasPermission (state (final (connect ev s))) \<and>
         isConnected (state (final (connect ev s))) = isConnected (state s) \<and>
         \<not> connected (connectionRef (final (connect ev s))) \<and>
         error (state (final (connect ev s))) =
           Some ''Microphone permission denied or not available'' \<and>
         has_live_peer (final (connect ev s)) \<and>
         peerConnection (connectionRef (final (connect ev s))) = Some (next_handle (browser s)) \<and>
         audioElement (connectionRef (final (connect ev s))) =
           Some (Suc (next_handle (browser s)))"
    using h by (intro connect_mic_refused_facts) simp_all
  then show ?run by simp
qed

theorem mic_failure_aborts_witness:
  "user_media mic_denied_env = Rejected (ErrorObj ''NotAllowedError'') \<and>
   resume mic_denied_env (AwaitUserMedia scenario_token 0 1) torn_down_session =
     Finished late_refusal \<and>
   browser late_refusal = browser torn_down_session \<and>
   \<not> hasPermission (state late_refusal) \<and>
   error (state late_refusal) = Some ''Microphone permission denied or not available'' \<and>
   \<not> connecting (connectionRef (initial_hook all_callbacks)) \<and>
   \<not> connected (connectionRef (initial_hook all_callbacks)) \<and>
   getEphemeralToken (token_fetch mic_denied_env) = Resolved scenario_token \<and>
   peer_ctor mic_denied_env = None \<and>
   connect mic_denied_env (initial_hook all_callbacks) = Finished mic_denied_result \<and>
   network (browser mic_denied_result) = [TokenRequest] \<and>
   dataChannel (connectionRef mic_denied_result) = None \<and>
   \<not> hasPermission (state mic_denied_result) \<and>
   \<not> isConnected (state mic_denied_result) \<and>
   error (state mic_denied_result) = Some ''Microphone permission denied or not available'' \<and>
   has_live_peer mic_denied_result \<and>
   peerConnection (connectionRef mic_denied_result) = Some 0"
proof -
  note h = initial_hook_idle [of all_callbacks]
  note e = mic_denied_outcomes
  from mic_failure_aborts [where ev = mic_denied_env and x = torn_down_session
      and s = "initial_hook all_callbacks" and tokenData = scenario_token and pc = 0
      and audioEl = 1 and err = "ErrorObj ''NotAllowedError''"]
    h mic_denied_token e
  show ?thesis
    by (simp add: mic_denied_result_def late_refusal_def initial_hook_def initial_state_def
        baseline_def empty_browser_def)
qed

text \<open>
  Claim C2 fails as stated: after a refused microphone \<^verbatim>\<open>connect\<close> has returned and the ref
  still holds the peer connection and the audio element built before; the peer connection
  is not closed.
\<close>

theorem mic_denied_keeps_peer:
  "connect mic_denied_env (initial_hook all_callbacks) = Finished mic_denied_result \<and>
   peerConnection (connectionRef mic_denied_result) = Some 0 \<and>
   audioElement (connectionRef mic_denied_result) = Some 1 \<and>
   peers (browser mic_denied_result) 0 =
     Some \<lparr>pc_closed = False, transceivers = 1, senders = [], localDescription = None,
           remoteDescription = None\<rparr>"
  by (simp add: mic_denied_result_def mic_denied_env_def scenario_defs run_defs)

text \<open>
  The inner \<^verbatim>\<open>catch\<close> returns without the reset of the two flags that the outer \<^verbatim>\<open>catch\<close>
  performs on every other failure (lines 365-372): after a refused microphone
  \<^verbatim>\<open>connecting\<close> and \<^verbatim>\<open>isConnecting\<close> are still true, and the guard stops every later
  \<^verbatim>\<open>connect\<close> until \<^verbatim>\<open>disconnect\<close> is called. This is a defect of the code; the property above
  says nothing about the two flags.
\<close>

lemma mic_refusal_skips_flag_reset:
  "connecting (connectionRef mic_denied_result) \<and> isConnecting (state mic_denied_result) \<and>
   connect ev mic_denied_result = Finished mic_denied_result"
proof -
  have "connecting (connectionRef mic_denied_result) \<and> isConnecting (state mic_denied_result)"
    by (simp add: mic_denied_result_def mic_denied_env_def scenario_defs run_defs)
  then show ?thesis by (simp add: connect_def connect_begin_def)
qed

subsection \<open>Credential acquisition\<close>

lemma getEphemeralToken_fails_iff:
  "(\<exists>e. getEphemeralToken r = Rejected e) \<longleftrightarrow>
     (case r of
        Never \<Rightarrow> False
      | Rejected e \<Rightarrow> True
      | Resolved response \<Rightarrow> \<not> tr_ok response \<or> isl (tr_json response))"
  by (auto simp: getEphemeralToken_def split: outcome.splits sum.splits)

lemma connect_token_failed:
  assumes "\<not> connecting (connectionRef s)" and "\<not> connected (connectionRef s)"
    and "getEphemeralToken (token_fetch ev) = Rejected e"
  shows "connect ev s = Finished (connect_catch e (request_token s))"
  using assms by (simp add: connect_unguarded caught_token_early)

text \<open>
  Claim C3, as the code has it. \<^verbatim>\<open>getEphemeralToken\<close> fails exactly when the request itself
  fails, the backend answers with a non-success status, or the body is not JSON; with a
  non-success status and a JSON body the error carries the body's \<^verbatim>\<open>error\<close> text, or
  "Failed to get ephemeral token" when that is missing or empty. A success answer is taken
  as it is, whether or not it has the secret. One request is made and none repeated. When
  it fails, \<^verbatim>\<open>connect\<close> returns having recorded the message in \<^verbatim>\<open>error\<close>, reset the flags and
  called the error callback; no peer connection is built and no offer is posted: the
  browser differs only by the one token request, and Connection State only by the flags.
\<close>

theorem credential_failure:
  "((\<exists>e. getEphemeralToken r = Rejected e) \<longleftrightarrow>
     (case r of
        Never \<Rightarrow> False
      | Rejected e \<Rightarrow> True
      | Resolved response \<Rightarrow> \<not> tr_ok response \<or> isl (tr_json response))) \<and>
   getEphemeralToken (Resolved \<lparr>tr_ok = False, tr_json = Inr err\<rparr>) =
     Rejected (ErrorObj (or_else (tok_error err) ''Failed to get ephemeral token'')) \<and>
   getEphemeralToken (Resolved \<lparr>tr_ok = True, tr_json = Inr tokenData\<rparr>) = Resolved tokenData \<and>
   (\<not> connecting (connectionRef s) \<and> \<not> connected (connectionRef s) \<and>
    getEphemeralToken (token_fetch ev) = Rejected e \<longrightarrow>
      connect ev s = Finished (final (connect ev s)) \<and>
      browser (final (connect ev s)) =
        (browser s)\<lparr>network := network (browser s) @ [TokenRequest]\<rparr> \<and>
      connectionRef (final (connect ev s)) =
        (connectionRef s)\<lparr>connecting := False, connected := False\<rparr> \<and>
      state (final (connect ev s)) =
        (state s)\<lparr>isConnecting := False, isConnected := False,
           error := Some (error_message e)\<rparr> \<and>
      notified (final (connect ev s)) = notified s @
        (if onError (callbackRefs s) then [NotifyError (error_message e)] else []))"
proof (intro conjI impI)
  show "(\<exists>e. getEphemeralToken r = Rejected e) \<longleftrightarrow>
     (case r of
        Never \<Rightarrow> False
      | Rejected e \<Rightarrow> True
      | Resolved response \<Rightarrow> \<not> tr_ok response \<or> isl (tr_json response))"
    by (rule getEphemeralToken_fails_iff)
  show "getEphemeralToken (Resolved \<lparr>tr_ok = False, tr_json = Inr err\<rparr>) =
     Rejected (ErrorObj (or_else (tok_error err) ''Failed to get ephemeral token''))"
    by (simp add: getEphemeralToken_def)
  show "getEphemeralToken (Resolved \<lparr>tr_ok = True, tr_json = Inr tokenData\<rparr>) =
     Resolved tokenData"
    by (simp add: getEphemeralToken_def)
next
  assume a: "\<not> connecting (connectionRef s) \<and> \<not> connected (connectionRef s) \<and>
    getEphemeralToken (token_fetch ev) = Rejected e"
  then have c: "connect ev s = Finished (connect_catch e (request_token s))"
    by (simp add: connect_token_failed)
  from c show "connect ev s = Finished (final (connect ev s))" by simp
  from c show "browser (final (connect ev s)) =
        (browser s)\<lparr>network := network (browser s) @ [TokenRequest]\<rparr>"
    by (simp add: catch_facts request_token_facts)
  from c a show "connectionRef (final (connect ev s)) =
        (connectionRef s)\<lparr>connecting := False, connected := False\<rparr>"
    by (simp add: catch_facts request_token_facts)
  from c a show "state (final (connect ev s)) =
        (state s)\<lparr>isConnecting := False, isConnected := False,
           error := Some (error_message e)\<rparr>"
    by (simp add: catch_facts request_token_facts)
  from c show "notified (final (connect ev s)) = notified s @
        (if onError (callbackRefs s) then [NotifyError (error_message e)] else [])"
    by (simp add: catch_facts request_token_facts)
qed

lemma token_refused_rejected:
  "getEphemeralToken (token_fetch token_refused_env) =
     Rejected (ErrorObj ''OpenAI API key not configured'')"
  by (simp add: token_refused_env_def scenario_env_def getEphemeralToken_def or_else_def)

theorem credential_failure_witness:
  "\<not> connecting (connectionRef (initial_hook all_callbacks)) \<and>
   \<not> connected (connectionRef (initial_hook all_callbacks)) \<and>
   getEphemeralToken (token_fetch token_refused_env) =
     Rejected (ErrorObj ''OpenAI API key not configured'') \<and>
   connect token_refused_env (initial_hook all_callbacks) = Finished token_refused_result \<and>
   browser token_refused_result = empty_browser\<lparr>network := [TokenRequest]\<rparr> \<and>
   connectionRef token_refused_result = baseline \<and>
   state token_refused_result =
     initial_state\<lparr>error := Some ''OpenAI API key not configured''\<rparr> \<and>
   notified token_refused_result = [NotifyError ''OpenAI API key not configured'']"
proof -
  have h: "\<not> connecting (connectionRef (initial_hook all_callbacks)) \<and>
      \<not> connected (connectionRef (initial_hook all_callbacks)) \<and>
      getEphemeralToken (token_fetch token_refused_env) =
        Rejected (ErrorObj ''OpenAI API key not configured'')"
    by (simp add: initial_hook_def baseline_def token_refused_rejected)
  from credential_failure [where r = "token_fetch token_refused_env"
      and s = "initial_hook all_callbacks" and ev = token_refused_env
      and e = "ErrorObj ''OpenAI API key not configured''"] h
  show ?thesis
    by (simp add: token_refused_result_def initial_hook_def initial_state_def baseline_def
        empty_browser_def all_callbacks_def error_message_def)
qed

text \<open>
  Claim C3 fails as stated: a 200 answer whose body has no \<^verbatim>\<open>value\<close> is not a failure of
  \<^verbatim>\<open>getEphemeralToken\<close>, and \<^verbatim>\<open>connect\<close> goes on to build the peer connection and to post the
  offer with the bearer "undefined".
\<close>

theorem missing_secret_accepted:
  "getEphemeralToken (token_fetch no_secret_env) =
     Resolved (scenario_token\<lparr>tok_value := None\<rparr>) \<and>
   connect no_secret_env (initial_hook all_callbacks) = Finished no_secret_result \<and>
   error (state no_secret_result) = None \<and>
   peerConnection (connectionRef no_secret_result) = Some 0 \<and>
   network (browser no_secret_result) =
     [TokenRequest,
      SdpRequest ''https://api.openai.com/v1/realtime/calls?model=m1'' ''Bearer undefined''
        ''offer+ice'']"
  by (simp add: no_secret_result_def no_secret_env_def scenario_defs run_defs)

end
